theory Spec2Isabelle
  imports Complex_Main "HOL-Library.Log_Nat"
begin

section \<open>JavaScript numbers\<close>

text \<open>
  A JavaScript \<^verbatim>\<open>number\<close> is an IEEE-754 binary64 value. A finite value is kept as the
  rational it denotes; the two infinities and NaN are separate constructors. The two
  zeros are identified (\<^verbatim>\<open>===\<close>, \<^verbatim>\<open><=\<close> and \<^verbatim>\<open>>\<close> identify them as well), and a zero
  divisor is taken to be \<^verbatim>\<open>+0\<close>.
\<close>

datatype number = Num rat | PosInfinity | NegInfinity | NaN

definition pow2 :: "int \<Rightarrow> rat" where
  "pow2 k = (if 0 \<le> k then 2 ^ nat k else 1 / 2 ^ nat (- k))"

text \<open>\<open>ilog2 a\<close> is the binary exponent of \<open>a > 0\<close>: \<open>2^k \<le> a < 2^(k+1)\<close>.\<close>

definition ilog2 :: "rat \<Rightarrow> int" where
  "ilog2 a = (let (n, d) = quotient_of a; k = bitlen n - bitlen d
              in if pow2 k \<le> a then k else k - 1)"

definition round_half_even :: "rat \<Rightarrow> int" where
  "round_half_even x = (let f = \<lfloor>x\<rfloor>; r = x - of_int f
     in if r < 1 / 2 then f else if 1 / 2 < r then f + 1 else if even f then f else f + 1)"

text \<open>
  Rounding of an exact result to binary64, to nearest with ties to even: 53 significant
  bits, gradual underflow below \<open>2^-1022\<close> (unit \<open>2^-1074\<close>), overflow to an infinity when
  the rounded value reaches \<open>2^1024\<close> (exponent above 1023, or exponent 1023 with the
  significand rounded up to \<open>2^53\<close>).
\<close>

definition round_double :: "rat \<Rightarrow> number" where
  "round_double q = (if q = 0 then Num 0 else
     let a = \<bar>q\<bar>;
         e = max (ilog2 a) (- 1022);
         u = pow2 (e - 52);
         n = round_half_even (a / u)
     in if 1024 \<le> e \<or> (e = 1023 \<and> n = 2 ^ 53)
        then (if 0 < q then PosInfinity else NegInfinity)
        else Num (if 0 < q then of_int n * u else - (of_int n * u)))"

text \<open>The operators \<^verbatim>\<open>*\<close>, \<^verbatim>\<open>/\<close> and \<^verbatim>\<open>-\<close>.\<close>

fun mul :: "number \<Rightarrow> number \<Rightarrow> number" where
  "mul NaN _ = NaN"
| "mul _ NaN = NaN"
| "mul (Num x) (Num y) = round_double (x * y)"
| "mul (Num x) PosInfinity = (if x = 0 then NaN else if 0 < x then PosInfinity else NegInfinity)"
| "mul (Num x) NegInfinity = (if x = 0 then NaN else if 0 < x then NegInfinity else PosInfinity)"
| "mul PosInfinity (Num y) = (if y = 0 then NaN else if 0 < y then PosInfinity else NegInfinity)"
| "mul NegInfinity (Num y) = (if y = 0 then NaN else if 0 < y then NegInfinity else PosInfinity)"
| "mul PosInfinity PosInfinity = PosInfinity"
| "mul PosInfinity NegInfinity = NegInfinity"
| "mul NegInfinity PosInfinity = NegInfinity"
| "mul NegInfinity NegInfinity = PosInfinity"

fun divide_num :: "number \<Rightarrow> number \<Rightarrow> number" where
  "divide_num NaN _ = NaN"
| "divide_num _ NaN = NaN"
| "divide_num (Num x) (Num y) =
     (if y = 0 then (if x = 0 then NaN else if 0 < x then PosInfinity else NegInfinity)
      else round_double (x / y))"
| "divide_num (Num x) PosInfinity = Num 0"
| "divide_num (Num x) NegInfinity = Num 0"
| "divide_num PosInfinity (Num y) = (if 0 \<le> y then PosInfinity else NegInfinity)"
| "divide_num NegInfinity (Num y) = (if 0 \<le> y then NegInfinity else PosInfinity)"
| "divide_num PosInfinity _ = NaN"
| "divide_num NegInfinity _ = NaN"

fun sub :: "number \<Rightarrow> number \<Rightarrow> number" where
  "sub NaN _ = NaN"
| "sub _ NaN = NaN"
| "sub (Num x) (Num y) = round_double (x - y)"
| "sub (Num x) PosInfinity = NegInfinity"
| "sub (Num x) NegInfinity = PosInfinity"
| "sub PosInfinity PosInfinity = NaN"
| "sub PosInfinity _ = PosInfinity"
| "sub NegInfinity NegInfinity = NaN"
| "sub NegInfinity _ = NegInfinity"

text \<open>The comparisons \<^verbatim>\<open><\<close> and \<^verbatim>\<open><=\<close>: false as soon as an operand is NaN.\<close>

fun lt :: "number \<Rightarrow> number \<Rightarrow> bool" where
  "lt NaN _ = False"
| "lt _ NaN = False"
| "lt (Num x) (Num y) = (x < y)"
| "lt _ NegInfinity = False"
| "lt NegInfinity _ = True"
| "lt PosInfinity _ = False"
| "lt _ PosInfinity = True"

definition le :: "number \<Rightarrow> number \<Rightarrow> bool" where
  "le a b = (a \<noteq> NaN \<and> b \<noteq> NaN \<and> (lt a b \<or> a = b))"

text \<open>\<^verbatim>\<open>Number.isFinite\<close>.\<close>

fun isFinite :: "number \<Rightarrow> bool" where
  "isFinite (Num x) = True"
| "isFinite _ = False"

text \<open>\<^verbatim>\<open>Math.max(...xs)\<close>: \<^verbatim>\<open>-Infinity\<close> for no argument, NaN as soon as one argument is NaN.\<close>

definition max2 :: "number \<Rightarrow> number \<Rightarrow> number" where
  "max2 a b = (if a = NaN \<or> b = NaN then NaN else if lt a b then b else a)"

definition Math_max :: "number list \<Rightarrow> number" where
  "Math_max xs = foldl max2 NegInfinity xs"

text \<open>A number is finite and differs from the exact value \<open>q\<close> by a relative error below 1e-9.\<close>

definition within_tolerance :: "number \<Rightarrow> rat \<Rightarrow> bool" where
  "within_tolerance v q =
     (case v of Num x \<Rightarrow> \<bar>x - q\<bar> * 10 ^ 9 < \<bar>q\<bar>
      | PosInfinity \<Rightarrow> False | NegInfinity \<Rightarrow> False | NaN \<Rightarrow> False)"

text \<open>
  The range of the inputs in which no step of the metrics computation overflows or
  underflows: from \<open>2^-100\<close> (about 7.9e-31) to \<open>2^100\<close> (about 1.3e30).
\<close>

definition in_range :: "rat \<Rightarrow> bool" where
  "in_range v = (1 / 2 ^ 100 \<le> v \<and> v \<le> 2 ^ 100)"

text \<open>
  \<open>x\<close> approximates the exact value \<open>q\<close>, which lies between \<open>2^-n\<close> and \<open>2^n\<close>, with a
  relative error of at most \<open>k * 2^-52\<close>.
\<close>

definition tracks :: "rat \<Rightarrow> rat \<Rightarrow> nat \<Rightarrow> int \<Rightarrow> bool" where
  "tracks x q k n = (pow2 (- n) \<le> q \<and> q \<le> pow2 n \<and> \<bar>x - q\<bar> \<le> of_nat k * (q / 2 ^ 52))"

text \<open>A value that is 0 or NaN: what a product with 0 can be.\<close>

definition zero_or_NaN :: "number \<Rightarrow> bool" where
  "zero_or_NaN x = (x = Num 0 \<or> x = NaN)"

section \<open>The metrics engine (src/lib/energy-metrics.ts)\<close>

record ModelData =
  name :: string
  parameters_in_billions :: number
  emissions_per_token_kWh :: number

record RegionData =
  region_name :: string
  carbonIntensity :: number

record MetricsResult =
  totalCost :: number
  costPer1M :: number
  totalEnergyKwh :: number
  carbonEmissionsKg :: number
  totalFlops :: number
  energyPerToken :: number

datatype Precision = FP32 | FP16 | FP8

definition zeroResult :: MetricsResult where
  "zeroResult = \<lparr>totalCost = Num 0, costPer1M = Num 0, totalEnergyKwh = Num 0,
     carbonEmissionsKg = Num 0, totalFlops = Num 0, energyPerToken = Num 0\<rparr>"

definition baseEfficiency :: number where
  "baseEfficiency = Num 659000000000"

fun precisionMultipliers :: "Precision \<Rightarrow> number" where
  "precisionMultipliers FP32 = Num 1"
| "precisionMultipliers FP16 = Num 2"
| "precisionMultipliers FP8 = Num 4"

definition efficiency :: "Precision \<Rightarrow> number" where
  "efficiency precision = mul baseEfficiency (precisionMultipliers precision)"

text \<open>
  The function evaluates only arithmetic on numbers and reads fields of non-null records,
  so it has no throwing path: the model is a total function into \<open>MetricsResult\<close>.
  The argument \<open>model\<close> is \<^verbatim>\<open>ModelData | null\<close>.
\<close>

definition calculateMetrics ::
  "ModelData option \<Rightarrow> number \<Rightarrow> Precision \<Rightarrow> number \<Rightarrow> number \<Rightarrow> RegionData \<Rightarrow> MetricsResult" where
  "calculateMetrics model tokenCount precision pue electricityPrice region =
     (case model of
        None \<Rightarrow> zeroResult
      | Some m \<Rightarrow>
          if \<not> isFinite (parameters_in_billions m) \<or> le (parameters_in_billions m) (Num 0)
          then zeroResult
          else
            let totalFlops' = mul (mul (mul (Num 2) (parameters_in_billions m)) (Num 1000000000)) tokenCount;
                energyJoules = divide_num totalFlops' (efficiency precision);
                energyKwhBase = divide_num energyJoules (Num 3600000);
                totalEnergyKwh' = mul energyKwhBase pue;
                totalCost' = mul totalEnergyKwh' electricityPrice;
                energyPer1M = mul (divide_num totalEnergyKwh' tokenCount) (Num 1000000);
                costPer1M' = mul energyPer1M electricityPrice;
                carbonEmissionsKg' = mul totalEnergyKwh' (carbonIntensity region);
                energyPerToken' = divide_num totalEnergyKwh' tokenCount
            in \<lparr>totalCost = totalCost', costPer1M = costPer1M', totalEnergyKwh = totalEnergyKwh',
                 carbonEmissionsKg = carbonEmissionsKg', totalFlops = totalFlops',
                 energyPerToken = energyPerToken'\<rparr>)"

section \<open>Strings and regular expressions\<close>

text \<open>
  A string is the list of its code units; the model covers code units below 256
  (Latin-1). \<open>toLowerCase\<close> maps \<open>A-Z\<close> and the Latin-1 capitals (\<open>0xC0-0xDE\<close> without the
  multiplication sign \<open>0xD7\<close>) to the letter 32 places above.
\<close>

definition toLowerCase_char :: "char \<Rightarrow> char" where
  "toLowerCase_char c =
     (let n = (of_char c :: nat)
      in if (65 \<le> n \<and> n \<le> 90) \<or> (192 \<le> n \<and> n \<le> 222 \<and> n \<noteq> 215) then char_of (n + 32) else c)"

definition toLowerCase :: "string \<Rightarrow> string" where
  "toLowerCase s = map toLowerCase_char s"

text \<open>\<^verbatim>\<open>String.prototype.includes\<close>.\<close>

primrec includes_str :: "string \<Rightarrow> string \<Rightarrow> bool" where
  "includes_str [] p = (p = [])"
| "includes_str (c # cs) p = (take (length p) (c # cs) = p \<or> includes_str cs p)"

text \<open>The character classes \<^verbatim>\<open>\d\<close>, \<^verbatim>\<open>\w\<close>, \<^verbatim>\<open>\s\<close> and \<^verbatim>\<open>[bBtT]\<close>.\<close>

definition is_digit :: "char \<Rightarrow> bool" where
  "is_digit c = (c \<in> set ''0123456789'')"

definition is_word :: "char \<Rightarrow> bool" where
  "is_word c = (c \<in> set ''abcdefghijklmnopqrstuvwxyzABCDEFGHIJKLMNOPQRSTUVWXYZ0123456789_'')"

definition is_space :: "char \<Rightarrow> bool" where
  "is_space c = (c \<in> set [CHR 0x09, CHR 0x0A, CHR 0x0B, CHR 0x0C, CHR 0x0D, CHR '' '', CHR 0xA0])"

definition is_unit_letter :: "char \<Rightarrow> bool" where
  "is_unit_letter c = (c \<in> set ''bBtT'')"

text \<open>
  A matcher is run on a string at an index and returns the indices at which a match of
  the pattern may end, in the order in which a backtracking engine tries them: the first
  one is tried first, and a later one only when the rest of the pattern fails.
\<close>

type_synonym matcher = "string \<Rightarrow> nat \<Rightarrow> nat list"

definition word_at :: "string \<Rightarrow> nat \<Rightarrow> bool" where
  "word_at s i = (i < length s \<and> is_word (s ! i))"

text \<open>\<^verbatim>\<open>\b\<close>: exactly one of the code units before and after the index is a word character.\<close>

definition boundary :: "string \<Rightarrow> nat \<Rightarrow> bool" where
  "boundary s i = ((0 < i \<and> word_at s (i - 1)) \<noteq> word_at s i)"

definition m_boundary :: matcher where
  "m_boundary s i = (if boundary s i then [i] else [])"

definition m_class :: "(char \<Rightarrow> bool) \<Rightarrow> matcher" where
  "m_class P s i = (if i < length s \<and> P (s ! i) then [Suc i] else [])"

definition run :: "(char \<Rightarrow> bool) \<Rightarrow> string \<Rightarrow> nat \<Rightarrow> nat" where
  "run P s i = length (takeWhile P (drop i s))"

text \<open>Greedy \<^verbatim>\<open>*\<close> and \<^verbatim>\<open>+\<close> on a character class: the longest run first.\<close>

definition m_star :: "(char \<Rightarrow> bool) \<Rightarrow> matcher" where
  "m_star P s i = map (\<lambda>k. i + k) (rev [0..<Suc (run P s i)])"

definition m_plus :: "(char \<Rightarrow> bool) \<Rightarrow> matcher" where
  "m_plus P s i = map (\<lambda>k. i + k) (rev [1..<Suc (run P s i)])"

definition m_seq :: "matcher \<Rightarrow> matcher \<Rightarrow> matcher" where
  "m_seq m1 m2 s i = concat (map (m2 s) (m1 s i))"

text \<open>Greedy \<^verbatim>\<open>?\<close>: with the group first, without it second.\<close>

definition m_opt :: "matcher \<Rightarrow> matcher" where
  "m_opt m s i = m s i @ [i]"

text \<open>A literal under the \<^verbatim>\<open>i\<close> flag; the literals of this program are in lower case.\<close>

primrec m_literal_i :: "string \<Rightarrow> matcher" where
  "m_literal_i [] = (\<lambda>s i. [i])"
| "m_literal_i (c # cs) = m_seq (m_class (\<lambda>x. toLowerCase_char x = c)) (m_literal_i cs)"

text \<open>\<^verbatim>\<open>RegExp.prototype.test\<close> of a regular expression without the \<^verbatim>\<open>g\<close> flag.\<close>

definition regex_test :: "matcher \<Rightarrow> string \<Rightarrow> bool" where
  "regex_test m s = list_ex (\<lambda>i. m s i \<noteq> []) [0..<Suc (length s)]"

text \<open>\<^verbatim>\<open>/\bbaidu\b/i\<close>, \<^verbatim>\<open>/\bernie\b/i\<close> and \<^verbatim>\<open>/\(\s*free\s*\)/i\<close>.\<close>

definition blacklistPatterns :: "matcher list" where
  "blacklistPatterns =
     [m_seq m_boundary (m_seq (m_literal_i ''baidu'') m_boundary),
      m_seq m_boundary (m_seq (m_literal_i ''ernie'') m_boundary)]"

definition free_pattern :: matcher where
  "free_pattern =
     m_seq (m_class (\<lambda>c. c = CHR ''(''))
       (m_seq (m_star is_space)
         (m_seq (m_literal_i ''free'')
           (m_seq (m_star is_space) (m_class (\<lambda>c. c = CHR '')'')))))"

text \<open>
  \<^verbatim>\<open>/\b(\d+(?:\.\d+)?)\s*([bBtT])\b/g\<close> at one index: the first successful alternative gives
  the text of group 1, the code unit of group 2 and the end of the match.
\<close>

definition number_pattern :: matcher where
  "number_pattern =
     m_seq (m_plus is_digit) (m_opt (m_seq (m_class (\<lambda>c. c = CHR ''.'')) (m_plus is_digit)))"

definition parameterRegex_at :: "string \<Rightarrow> nat \<Rightarrow> (string \<times> char \<times> nat) option" where
  "parameterRegex_at s i =
     (case concat (map (\<lambda>b. concat (map (\<lambda>k. concat (map (\<lambda>l. concat (map (\<lambda>e.
                   map (\<lambda>f. (k, l, f)) (m_boundary s e))
                 (m_class is_unit_letter s l)))
               (m_star is_space s k)))
             (number_pattern s b)))
           (m_boundary s i)) of
        [] \<Rightarrow> None
      | (k, l, f) # _ \<Rightarrow> Some (take (k - i) (drop i s), s ! l, f))"

text \<open>
  \<^verbatim>\<open>[...s.matchAll(parameterRegex)]\<close>: the search starts at \<open>lastIndex\<close>, tries each index in
  turn, and after a match goes on from the end of the match (one further when the match
  is empty). The result lists groups 1 and 2 of each match.
\<close>

function matchAll_from :: "string \<Rightarrow> nat \<Rightarrow> (string \<times> char) list" where
  "matchAll_from s i =
     (if length s < i then []
      else case parameterRegex_at s i of
             None \<Rightarrow> matchAll_from s (Suc i)
           | Some (num, unit, e) \<Rightarrow> (num, unit) # matchAll_from s (max (Suc i) e))"
  by pat_completeness auto
termination
  by (relation "measure (\<lambda>(s, i). Suc (length s) - i)") auto

declare matchAll_from.simps [simp del]

definition matchAll :: "string \<Rightarrow> (string \<times> char) list" where
  "matchAll s = matchAll_from s 0"

text \<open>
  \<^verbatim>\<open>Number.parseFloat\<close> on the texts group 1 can hold, digits with an optional fraction:
  the decimal value, rounded to binary64. (Signs, exponents and leading blanks, which
  \<^verbatim>\<open>parseFloat\<close> also reads, cannot occur in group 1; a text that does not start with a
  digit gives NaN here.)
\<close>

definition digit_value :: "char \<Rightarrow> int" where
  "digit_value c = of_char c - 48"

definition decimal :: "string \<Rightarrow> int" where
  "decimal ds = foldl (\<lambda>a c. 10 * a + digit_value c) 0 ds"

definition parseFloat :: "string \<Rightarrow> number" where
  "parseFloat s =
     (let ip = takeWhile is_digit s
      in if ip = [] then NaN
         else case drop (length ip) s of
                c # fs \<Rightarrow>
                  if c = CHR ''.'' \<and> takeWhile is_digit fs \<noteq> []
                  then let fp = takeWhile is_digit fs
                       in round_double (of_int (decimal (ip @ fp)) / 10 ^ length fp)
                  else round_double (of_int (decimal ip))
              | [] \<Rightarrow> round_double (of_int (decimal ip)))"

text \<open>
  The wording of the specification, for comparison with \<open>matchAll\<close>: the name holds, between
  word edges, a number (digits with an optional fraction) with a unit letter as the very
  next code unit.
\<close>

definition spec_has_token :: "string \<Rightarrow> bool" where
  "spec_has_token s =
     list_ex (\<lambda>i. boundary s i \<and>
                list_ex (\<lambda>j. j < length s \<and> is_unit_letter (s ! j) \<and> boundary s (Suc j)) (number_pattern s i))
       [0..<Suc (length s)]"

section \<open>The catalog endpoint (GET of the models route)\<close>

definition energyConsumptionFactor :: number where
  "energyConsumptionFactor = round_double (7594 / 10 ^ 12)"

definition valid :: "ModelData \<Rightarrow> bool" where
  "valid m = (isFinite (parameters_in_billions m) \<and> lt (Num 0) (parameters_in_billions m))"

definition fallbackModels :: "ModelData list" where
  "fallbackModels =
    [\<lparr>name = ''GPT-4 Turbo'', parameters_in_billions = Num 175, emissions_per_token_kWh = round_double (1329 / 10 ^ 9)\<rparr>,
     \<lparr>name = ''Claude-3 Opus'', parameters_in_billions = Num 175, emissions_per_token_kWh = round_double (1329 / 10 ^ 9)\<rparr>,
     \<lparr>name = ''Llama 2 70B'', parameters_in_billions = Num 70, emissions_per_token_kWh = round_double (5316 / 10 ^ 10)\<rparr>,
     \<lparr>name = ''Mixtral 8x7B'', parameters_in_billions = Num 7, emissions_per_token_kWh = round_double (5316 / 10 ^ 11)\<rparr>,
     \<lparr>name = ''Llama 2 13B'', parameters_in_billions = Num 13, emissions_per_token_kWh = round_double (9872 / 10 ^ 11)\<rparr>,
     \<lparr>name = ''Llama 2 7B'', parameters_in_billions = Num 7, emissions_per_token_kWh = round_double (5316 / 10 ^ 11)\<rparr>,
     \<lparr>name = ''Mistral 7B'', parameters_in_billions = Num 7, emissions_per_token_kWh = round_double (5316 / 10 ^ 11)\<rparr>,
     \<lparr>name = ''CodeLlama 34B'', parameters_in_billions = Num 34, emissions_per_token_kWh = round_double (2582 / 10 ^ 10)\<rparr>,
     \<lparr>name = ''Vicuna 13B'', parameters_in_billions = Num 13, emissions_per_token_kWh = round_double (9872 / 10 ^ 11)\<rparr>,
     \<lparr>name = ''WizardLM 70B'', parameters_in_billions = Num 70, emissions_per_token_kWh = round_double (5316 / 10 ^ 10)\<rparr>,
     \<lparr>name = ''DeepSeek V3 0324'', parameters_in_billions = Num 675,
       emissions_per_token_kWh = mul (Num 675) (round_double (7594 / 10 ^ 12))\<rparr>,
     \<lparr>name = ''Kimi K2'', parameters_in_billions = Num 1000,
       emissions_per_token_kWh = mul (Num 1000) (round_double (7594 / 10 ^ 12))\<rparr>]"

definition essentialModels :: "ModelData list" where
  "essentialModels =
    [\<lparr>name = ''DeepSeek V3 0324'', parameters_in_billions = Num 675,
       emissions_per_token_kWh = mul (Num 675) energyConsumptionFactor\<rparr>,
     \<lparr>name = ''Kimi K2'', parameters_in_billions = Num 1000,
       emissions_per_token_kWh = mul (Num 1000) energyConsumptionFactor\<rparr>]"

text \<open>
  The upstream answer. An element of \<^verbatim>\<open>data.data\<close> is an object whose \<^verbatim>\<open>name\<close> is a string
  or is missing (\<open>Item\<close>), or \<^verbatim>\<open>null\<close>, on which reading \<^verbatim>\<open>model.name\<close> throws (\<open>NullItem\<close>).
  The body is not JSON (\<^verbatim>\<open>response.json()\<close> rejects), or a value with or without an
  array under \<^verbatim>\<open>data\<close>. \<open>Rejected\<close> is a \<^verbatim>\<open>fetch\<close> that rejects: a network error or the
  abort after ten seconds.
\<close>

datatype upstream_item = Item "string option" | NullItem

datatype payload = NotJson | Json "upstream_item list option"

datatype fetch_result = Rejected | Response bool "string option" payload

text \<open>
  The conversion of one match (lines 106 to 110) and the largest count of a name
  (lines 100 to 111).
\<close>

definition parameterCount :: "string \<times> char \<Rightarrow> number" where
  "parameterCount match =
     (let v = parseFloat (fst match); unit = toLowerCase [snd match]
      in if unit = ''t'' then mul v (Num 1000) else v)"

definition parametersInBillions :: "string \<Rightarrow> number option" where
  "parametersInBillions modelName =
     (let matches = matchAll modelName
      in if 0 < length matches then Some (Math_max (map parameterCount matches)) else None)"

text \<open>
  The body of the loop over \<^verbatim>\<open>data.data\<close> for one name (lines 86 to 127), and the loop
  (lines 83 to 128); \<open>None\<close> is an exception, which the outer \<^verbatim>\<open>catch\<close> receives.
\<close>

definition process_name :: "string \<Rightarrow> ModelData list \<Rightarrow> ModelData list" where
  "process_name rawName modelsWithEmissions =
     (if list_ex (\<lambda>re. regex_test re rawName) blacklistPatterns then modelsWithEmissions
      else if regex_test free_pattern rawName then modelsWithEmissions
      else case parametersInBillions rawName of
             None \<Rightarrow> modelsWithEmissions
           | Some p \<Rightarrow>
               if lt (Num 0) p
               then modelsWithEmissions @
                      [\<lparr>name = rawName, parameters_in_billions = p,
                        emissions_per_token_kWh = mul p energyConsumptionFactor\<rparr>]
               else modelsWithEmissions)"

fun process_items :: "upstream_item list \<Rightarrow> ModelData list \<Rightarrow> ModelData list option" where
  "process_items [] modelsWithEmissions = Some modelsWithEmissions"
| "process_items (NullItem # rest) modelsWithEmissions = None"
| "process_items (Item n # rest) modelsWithEmissions =
     process_items rest
       (process_name (case n of None \<Rightarrow> [] | Some s \<Rightarrow> s) modelsWithEmissions)"

text \<open>Lines 136 to 140: an essential model is appended unless its name is there already.\<close>

fun add_essentials :: "ModelData list \<Rightarrow> ModelData list \<Rightarrow> ModelData list" where
  "add_essentials [] modelsWithEmissions = modelsWithEmissions"
| "add_essentials (essential # rest) modelsWithEmissions =
     (if \<not> list_ex (\<lambda>m. toLowerCase (name m) = toLowerCase (name essential)) modelsWithEmissions
      then add_essentials rest (modelsWithEmissions @ [essential])
      else add_essentials rest modelsWithEmissions)"

text \<open>
  \<^verbatim>\<open>sort((a, b) => b.parameters_in_billions - a.parameters_in_billions)\<close>: the sort is
  stable, \<open>a\<close> stays before \<open>b\<close> unless the comparator is positive (NaN counts as 0).
\<close>

definition comparator :: "ModelData \<Rightarrow> ModelData \<Rightarrow> number" where
  "comparator a b = sub (parameters_in_billions b) (parameters_in_billions a)"

fun insert_model :: "ModelData \<Rightarrow> ModelData list \<Rightarrow> ModelData list" where
  "insert_model a [] = [a]"
| "insert_model a (b # bs) =
     (if lt (Num 0) (comparator a b) then b # insert_model a bs else a # b # bs)"

definition sort_models :: "ModelData list \<Rightarrow> ModelData list" where
  "sort_models ms = foldr insert_model ms []"

text \<open>
  The module state, and what one call of \<open>GET\<close> gives: the catalog sent, the state left,
  and how many times \<^verbatim>\<open>fetch\<close> was called.
\<close>

record cache =
  cachedModels :: "ModelData list option"
  lastFetched :: int

record outcome =
  sent :: "ModelData list"
  state :: cache
  fetches :: nat

definition oneDay :: int where
  "oneDay = 24 * 60 * 60 * 1000"

text \<open>Lines 71 to 160, from the parsed body on; \<open>None\<close> is an exception.\<close>

definition from_body :: "cache \<Rightarrow> int \<Rightarrow> upstream_item list option \<Rightarrow> (ModelData list \<times> cache) option" where
  "from_body c now_store data =
     (case data of
        None \<Rightarrow> Some (fallbackModels, c)
      | Some items \<Rightarrow>
          (case process_items items [] of
             None \<Rightarrow> None
           | Some modelsWithEmissions \<Rightarrow>
               let cleanModels = filter valid (add_essentials essentialModels modelsWithEmissions)
               in if 0 < length cleanModels
                  then Some (sort_models cleanModels,
                             \<lparr>cachedModels = Some (sort_models cleanModels), lastFetched = now_store\<rparr>)
                  else Some (fallbackModels,
                             \<lparr>cachedModels = Some fallbackModels, lastFetched = now_store\<rparr>)))"

text \<open>The \<^verbatim>\<open>try\<close> block (lines 45 to 160); \<open>None\<close> is an exception.\<close>

definition try_block :: "cache \<Rightarrow> int \<Rightarrow> fetch_result \<Rightarrow> (ModelData list \<times> cache) option" where
  "try_block c now_store r =
     (case r of
        Rejected \<Rightarrow> None
      | Response ok contentType body \<Rightarrow>
          if \<not> ok then Some (fallbackModels, c)
          else if (case contentType of None \<Rightarrow> True | Some t \<Rightarrow> \<not> includes_str t ''application/json'')
          then Some (fallbackModels, c)
          else (case body of NotJson \<Rightarrow> None | Json data \<Rightarrow> from_body c now_store data))"

text \<open>
  \<open>GET\<close>: \<open>now\<close> is the value of \<^verbatim>\<open>Date.now()\<close> at line 34, \<open>now_store\<close> its value where
  the cache is written, \<open>r\<close> what \<^verbatim>\<open>fetch\<close> gives if it is called.
\<close>

definition GET :: "cache \<Rightarrow> int \<Rightarrow> int \<Rightarrow> fetch_result \<Rightarrow> outcome" where
  "GET c now now_store r =
     (if (case cachedModels c of
            None \<Rightarrow> False
          | Some ms \<Rightarrow> now - lastFetched c < oneDay \<and> length (filter valid ms) = length ms)
      then \<lparr>sent = the (cachedModels c), state = c, fetches = 0\<rparr>
      else case try_block c now_store r of
             Some (ms, c') \<Rightarrow> \<lparr>sent = ms, state = c', fetches = 1\<rparr>
           | None \<Rightarrow> \<lparr>sent = fallbackModels,
                       state = \<lparr>cachedModels = Some fallbackModels, lastFetched = now_store\<rparr>,
                       fetches = 1\<rparr>)"

section \<open>Properties of the metrics engine\<close>

lemma round_double_examples:
  "round_double (1 / 10) = Num (3602879701896397 / 36028797018963968)"
  "round_double 9007199254740993 = Num 9007199254740992"
  "round_double 9007199254740995 = Num 9007199254740996"
  "round_double (- (7 / 2)) = Num (- (7 / 2))"
  by code_simp+

lemma lt_zero_not_le: "lt (Num 0) p \<Longrightarrow> \<not> le p (Num 0)"
  by (cases p) (auto simp: le_def)

lemma not_lt_zero_le: "isFinite p \<Longrightarrow> \<not> lt (Num 0) p \<Longrightarrow> le p (Num 0)"
  by (cases p) (auto simp: le_def)

lemma efficiency_values:
  "efficiency FP32 = Num 659000000000"
  "efficiency FP16 = Num 1318000000000"
  "efficiency FP8 = Num 2636000000000"
  by code_simp+

lemma scenario_values:
  "(let s = calculateMetrics
            (Some \<lparr>name = [], parameters_in_billions = Num 70, emissions_per_token_kWh = Num 0\<rparr>)
            (Num 1000000) FP16 (round_double (12 / 10)) (round_double (152 / 1000))
            \<lparr>region_name = [], carbonIntensity = round_double (345 / 1000)\<rparr>;
        kwh = 2 * 70 * 10 ^ 9 * 10 ^ 6 / (659 * 10 ^ 9 * 2) / 3600000 * (12 / 10)
    in totalFlops s = Num 140000000000000000
     \<and> efficiency FP16 = Num 1318000000000
     \<and> within_tolerance (totalEnergyKwh s) kwh
     \<and> within_tolerance (totalCost s) (kwh * (152 / 1000))
     \<and> within_tolerance (costPer1M s) (kwh / 10 ^ 6 * 10 ^ 6 * (152 / 1000))
     \<and> within_tolerance (carbonEmissionsKg s) (kwh * (345 / 1000))
     \<and> within_tolerance (energyPerToken s) (kwh / 10 ^ 6))"
  by code_simp

lemma pow2_powi: "pow2 k = 2 powi k"
proof (cases "0 \<le> k")
  case True
  then show ?thesis
    by (simp add: pow2_def power_int_nonneg_exp)
next
  case False
  then have "(2::rat) powi k = 1 / 2 powi (- k)"
    using power_int_minus_divide [of "2::rat" "- k"] by simp
  with False show ?thesis
    by (simp add: pow2_def power_int_nonneg_exp)
qed

lemma pow2_pos: "0 < pow2 k"
  by (simp add: pow2_powi)

lemma pow2_add: "pow2 (i + j) = pow2 i * pow2 j"
  by (simp add: pow2_powi power_int_add)

lemma pow2_mono: "i \<le> j \<Longrightarrow> pow2 i \<le> pow2 j"
  by (simp add: pow2_powi power_int_increasing)

lemma pow2_less_D: "pow2 i < pow2 j \<Longrightarrow> i < j"
  using pow2_mono [of j i] by (cases "i < j") auto

lemma pow2_nat: "pow2 (int n) = 2 ^ n"
  by (simp add: pow2_def)

lemma pow2_diff: "pow2 (i - j) = pow2 i / pow2 j"
proof -
  have "pow2 i = pow2 (i - j) * pow2 j"
    using pow2_add [of "i - j" j] by simp
  then show ?thesis
    using pow2_pos [of j] by simp
qed

lemma ilog2_bounds:
  assumes "0 < a"
  shows "pow2 (ilog2 a) \<le> a \<and> a < pow2 (ilog2 a + 1)"
proof -
  obtain n d where nd: "quotient_of a = (n, d)"
    by (cases "quotient_of a")
  then have d: "0 < d" and a: "a = of_int n / of_int d"
    using quotient_of_denom_pos [OF nd] quotient_of_div [OF nd] by simp_all
  from assms a d have n: "0 < n"
    by (simp add: zero_less_divide_iff)
  define k where "k = bitlen n - bitlen d"
  have bn: "pow2 (bitlen n - 1) \<le> of_int n" "of_int n < pow2 (bitlen n)"
  proof -
    from bitlen_bounds [OF n] have "2 ^ nat (bitlen n - 1) \<le> n" "n < 2 ^ nat (bitlen n)"
      by simp_all
    then have "(of_int (2 ^ nat (bitlen n - 1)) :: rat) \<le> of_int n"
      "(of_int n :: rat) < of_int (2 ^ nat (bitlen n))"
      by (simp_all only: of_int_le_iff of_int_less_iff)
    moreover have "1 \<le> bitlen n"
      using n by (simp add: bitlen_alt_def)
    ultimately show "pow2 (bitlen n - 1) \<le> of_int n" "of_int n < pow2 (bitlen n)"
      by (simp_all add: pow2_def)
  qed
  have bd: "pow2 (bitlen d - 1) \<le> of_int d" "of_int d < pow2 (bitlen d)"
  proof -
    from bitlen_bounds [OF d] have "2 ^ nat (bitlen d - 1) \<le> d" "d < 2 ^ nat (bitlen d)"
      by simp_all
    then have "(of_int (2 ^ nat (bitlen d - 1)) :: rat) \<le> of_int d"
      "(of_int d :: rat) < of_int (2 ^ nat (bitlen d))"
      by (simp_all only: of_int_le_iff of_int_less_iff)
    moreover have "1 \<le> bitlen d"
      using d by (simp add: bitlen_alt_def)
    ultimately show "pow2 (bitlen d - 1) \<le> of_int d" "of_int d < pow2 (bitlen d)"
      by (simp_all add: pow2_def)
  qed
  have dpos: "(0::rat) < of_int d"
    using d by simp
  have up: "a < pow2 (k + 1)"
  proof -
    have "of_int n < pow2 (k + 1) * pow2 (bitlen d - 1)"
      using bn(2) pow2_add [of "k + 1" "bitlen d - 1"] by (simp add: k_def)
    also have "\<dots> \<le> pow2 (k + 1) * of_int d"
      using bd(1) pow2_pos [of "k + 1"] by simp
    finally show ?thesis
      using dpos by (simp add: a pos_divide_less_eq)
  qed
  have lo: "pow2 (k - 1) < a"
  proof -
    have "pow2 (k - 1) * of_int d < pow2 (k - 1) * pow2 (bitlen d)"
      using bd(2) pow2_pos [of "k - 1"] by simp
    also have "\<dots> = pow2 (bitlen n - 1)"
      using pow2_add [of "k - 1" "bitlen d"] by (simp add: k_def)
    also have "\<dots> \<le> of_int n"
      by (rule bn(1))
    finally show ?thesis
      using dpos by (simp add: a pos_less_divide_eq)
  qed
  have il: "ilog2 a = (if pow2 k \<le> a then k else k - 1)"
    by (simp add: ilog2_def nd k_def Let_def)
  show ?thesis
  proof (cases "pow2 k \<le> a")
    case True
    with il up show ?thesis
      by simp
  next
    case False
    with il lo show ?thesis
      by simp
  qed
qed

lemma round_half_even_err: "\<bar>of_int (round_half_even x) - x\<bar> \<le> 1 / 2"
proof -
  have "of_int \<lfloor>x\<rfloor> \<le> x" "x < of_int \<lfloor>x\<rfloor> + 1"
    by linarith+
  then show ?thesis
    by (auto simp: round_half_even_def Let_def)
qed

lemma pow2_53: "pow2 53 = 2 ^ 53"
  by (simp add: pow2_def)

lemma round_double_rel:
  assumes lo: "pow2 (- 1022) \<le> w" and hi: "w < pow2 1023"
  shows "\<exists>z. round_double w = Num z \<and> \<bar>z - w\<bar> \<le> w / 2 ^ 53"
proof -
  have w: "0 < w"
    using lo pow2_pos [of "- 1022"] by linarith
  define e where "e = ilog2 w"
  from ilog2_bounds [OF w] have b: "pow2 e \<le> w" "w < pow2 (e + 1)"
    by (simp_all add: e_def)
  have "pow2 e < pow2 1023"
    using b(1) hi by linarith
  then have e_hi: "e < 1023"
    by (rule pow2_less_D)
  have "pow2 (- 1022) < pow2 (e + 1)"
    using lo b(2) by linarith
  then have e_lo: "- 1022 \<le> e"
    using pow2_less_D [of "- 1022" "e + 1"] by simp
  define u where "u = pow2 (e - 52)"
  define n where "n = round_half_even (w / u)"
  have u: "0 < u"
    by (simp add: u_def pow2_pos)
  have me: "max (ilog2 w) (- 1022) = e"
    using e_lo by (simp add: e_def)
  have "round_double w =
      (if 1024 \<le> e \<or> (e = 1023 \<and> n = 2 ^ 53)
       then (if 0 < w then PosInfinity else NegInfinity)
       else Num (if 0 < w then of_int n * u else - (of_int n * u)))"
    using w by (simp only: round_double_def Let_def abs_of_pos [OF w] me u_def [symmetric]
        n_def [symmetric]) simp
  then have rd: "round_double w = Num (of_int n * u)"
    using w e_hi by simp
  have "\<bar>of_int n - w / u\<bar> \<le> 1 / 2"
    unfolding n_def by (rule round_half_even_err)
  then have "\<bar>of_int n - w / u\<bar> * u \<le> 1 / 2 * u"
    using u by (intro mult_right_mono) simp_all
  moreover have "\<bar>of_int n - w / u\<bar> * u = \<bar>of_int n * u - w\<bar>"
  proof -
    have "\<bar>of_int n - w / u\<bar> * u = \<bar>(of_int n - w / u) * u\<bar>"
      using u by (simp add: abs_mult)
    also have "(of_int n - w / u) * u = of_int n * u - w"
      using u by (simp add: algebra_simps)
    finally show ?thesis .
  qed
  ultimately have err: "\<bar>of_int n * u - w\<bar> \<le> u / 2"
    by simp
  have "pow2 e = pow2 (e - 52 - 1) * pow2 53"
    using pow2_add [of "e - 52 - 1" 53] by simp
  moreover have "pow2 (e - 52) = pow2 (e - 52 - 1) * pow2 1"
    using pow2_add [of "e - 52 - 1" 1] by simp
  moreover have "pow2 1 = 2"
    by (simp add: pow2_def)
  ultimately have "u / 2 = pow2 e / 2 ^ 53"
    by (simp add: u_def pow2_53)
  also have "\<dots> \<le> w / 2 ^ 53"
    using b(1) by (simp add: divide_right_mono)
  finally have "u / 2 \<le> w / 2 ^ 53" .
  with err rd show ?thesis
    by (intro exI [of _ "of_int n * u"]) simp
qed

lemma tracks_exact: "pow2 (- n) \<le> q \<Longrightarrow> q \<le> pow2 n \<Longrightarrow> tracks q q 0 n"
  by (simp add: tracks_def)

lemma round_step:
  assumes t: "tracks x q k n"
    and c: "pow2 (- m) \<le> c" "c \<le> pow2 m"
    and k: "k \<le> 1000"
    and nm: "n + m \<le> 1021"
  shows "\<exists>z. round_double (x * c) = Num z \<and> tracks z (q * c) (Suc k) (n + m)"
proof -
  have q: "pow2 (- n) \<le> q" "q \<le> pow2 n" and xq: "\<bar>x - q\<bar> \<le> of_nat k * (q / 2 ^ 52)"
    using t by (simp_all add: tracks_def)
  have qpos: "0 < q"
    using q(1) pow2_pos [of "- n"] by linarith
  have cpos: "0 < c"
    using c(1) pow2_pos [of "- m"] by linarith
  define P where "P = q * c / 2 ^ 52"
  have Ppos: "0 < P"
    using qpos cpos by (simp add: P_def)
  have k': "(of_nat k :: rat) \<le> 1000"
    using k by (metis of_nat_le_iff of_nat_numeral)
  have "of_nat k * (q / 2 ^ 52) \<le> 1000 * (q / 2 ^ 52)"
    using k' qpos by (intro mult_right_mono) simp_all
  also have "\<dots> \<le> q / 2"
    using qpos by simp
  finally have half: "\<bar>x - q\<bar> \<le> q / 2"
    using xq by linarith
  then have xb: "q / 2 \<le> x" "x \<le> 3 * q / 2"
    by linarith+
  have qc_lo: "pow2 (- (n + m)) \<le> q * c"
  proof -
    have "pow2 (- (n + m)) = pow2 (- n) * pow2 (- m)"
      using pow2_add [of "- n" "- m"] by simp
    also have "\<dots> \<le> q * c"
      using q(1) c(1) pow2_pos [of "- n"] pow2_pos [of "- m"]
      by (intro mult_mono) simp_all
    finally show ?thesis .
  qed
  have qc_hi: "q * c \<le> pow2 (n + m)"
  proof -
    have "q * c \<le> pow2 n * pow2 m"
      using q(2) c(2) qpos cpos pow2_pos [of n]
      by (intro mult_mono) simp_all
    then show ?thesis
      by (simp add: pow2_add)
  qed
  have xc_lo: "q * c / 2 \<le> x * c" and xc_hi: "x * c \<le> 3 * (q * c) / 2"
  proof -
    have "q / 2 * c \<le> x * c"
      using xb(1) cpos by (intro mult_right_mono) simp_all
    then show "q * c / 2 \<le> x * c"
      by simp
    have "x * c \<le> 3 * q / 2 * c"
      using xb(2) cpos by (intro mult_right_mono) simp_all
    then show "x * c \<le> 3 * (q * c) / 2"
      by simp
  qed
  have lo: "pow2 (- 1022) \<le> x * c"
  proof -
    have "pow2 (- 1022) \<le> pow2 (- (n + m) - 1)"
      using nm by (intro pow2_mono) simp
    also have "\<dots> = pow2 (- (n + m)) / 2"
      using pow2_diff [of "- (n + m)" 1] by (simp add: pow2_def)
    also have "\<dots> \<le> q * c / 2"
      using qc_lo by simp
    finally show ?thesis
      using xc_lo by linarith
  qed
  have hi: "x * c < pow2 1023"
  proof -
    have "3 * (q * c) / 2 < 2 * (q * c)"
      using qpos cpos by simp
    also have "\<dots> \<le> 2 * pow2 (n + m)"
      using qc_hi by simp
    also have "\<dots> = pow2 (n + m + 1)"
      using pow2_add [of "n + m" 1] by (simp add: pow2_def)
    also have "\<dots> \<le> pow2 1023"
      using nm by (intro pow2_mono) simp
    finally show ?thesis
      using xc_hi by linarith
  qed
  from round_double_rel [OF lo hi] obtain z where
    z: "round_double (x * c) = Num z" "\<bar>z - x * c\<bar> \<le> x * c / 2 ^ 53"
    by blast
  have e1: "\<bar>z - x * c\<bar> \<le> 3 / 4 * P"
  proof -
    have "x * c / 2 ^ 53 \<le> 3 * (q * c) / 2 / 2 ^ 53"
      using xc_hi by (intro divide_right_mono) simp_all
    also have "\<dots> = 3 / 4 * P"
      by (simp add: P_def)
    finally show ?thesis
      using z(2) by linarith
  qed
  have e2: "\<bar>x * c - q * c\<bar> \<le> of_nat k * P"
  proof -
    have "\<bar>x * c - q * c\<bar> = \<bar>x - q\<bar> * c"
      using cpos by (simp add: abs_mult left_diff_distrib [symmetric])
    also have "\<dots> \<le> of_nat k * (q / 2 ^ 52) * c"
      using xq cpos by (intro mult_right_mono) simp_all
    also have "\<dots> = of_nat k * P"
      by (simp add: P_def)
    finally show ?thesis .
  qed
  have "\<bar>z - q * c\<bar> \<le> \<bar>z - x * c\<bar> + \<bar>x * c - q * c\<bar>"
    by simp
  also have "\<dots> \<le> 3 / 4 * P + of_nat k * P"
    using e1 e2 by linarith
  also have "\<dots> \<le> of_nat (Suc k) * P"
    using Ppos by (simp add: algebra_simps)
  finally have "\<bar>z - q * c\<bar> \<le> of_nat (Suc k) * (q * c / 2 ^ 52)"
    by (simp only: P_def)
  moreover have "pow2 (- (n + m)) \<le> q * c" "q * c \<le> pow2 (n + m)"
    by (rule qc_lo, rule qc_hi)
  ultimately have "tracks z (q * c) (Suc k) (n + m)"
    by (simp only: tracks_def simp_thms)
  with z(1) show ?thesis
    by blast
qed

lemma pow2_neg: "pow2 (- m) = 1 / pow2 m"
proof -
  have "pow2 (- m) * pow2 m = 1"
    using pow2_add [of "- m" m] by (simp add: pow2_def)
  then show ?thesis
    using pow2_pos [of m] by (simp add: field_simps)
qed

lemma mul_step:
  assumes "tracks x q k n" "pow2 (- m) \<le> y" "y \<le> pow2 m" "k \<le> 1000" "n + m \<le> 1021"
  shows "\<exists>z. mul (Num x) (Num y) = Num z \<and> tracks z (q * y) (Suc k) (n + m)"
  using round_step [OF assms] by simp

lemma div_step:
  assumes "tracks x q k n" "pow2 (- m) \<le> y" "y \<le> pow2 m" "k \<le> 1000" "n + m \<le> 1021"
  shows "\<exists>z. divide_num (Num x) (Num y) = Num z \<and> tracks z (q / y) (Suc k) (n + m)"
proof -
  have ypos: "0 < y"
    using assms(2) pow2_pos [of "- m"] by linarith
  have "pow2 (- m) \<le> 1 / y"
    using assms(3) ypos pow2_pos [of m] by (simp add: pow2_neg frac_le)
  moreover have "1 / y \<le> pow2 m"
  proof -
    have "1 / y \<le> 1 / pow2 (- m)"
      using assms(2) pow2_pos [of "- m"] by (intro frac_le) simp_all
    then show ?thesis
      by (simp add: pow2_neg)
  qed
  ultimately obtain z where "round_double (x * (1 / y)) = Num z" "tracks z (q * (1 / y)) (Suc k) (n + m)"
    using round_step [OF assms(1) _ _ assms(4,5), of "1 / y"] by blast
  then show ?thesis
    using ypos by simp
qed

lemma tracks_tolerance:
  assumes "tracks z q k n" "k \<le> 1000"
  shows "within_tolerance (Num z) q"
proof -
  have q: "pow2 (- n) \<le> q" and e: "\<bar>z - q\<bar> \<le> of_nat k * (q / 2 ^ 52)"
    using assms(1) by (simp_all add: tracks_def)
  have qpos: "0 < q"
    using q pow2_pos [of "- n"] by linarith
  have "(of_nat k :: rat) \<le> 1000"
    using assms(2) by (metis of_nat_le_iff of_nat_numeral)
  then have "of_nat k * (q / 2 ^ 52) \<le> 1000 * (q / 2 ^ 52)"
    using qpos by (intro mult_right_mono) simp_all
  with e have "\<bar>z - q\<bar> \<le> 1000 * (q / 2 ^ 52)"
    by linarith
  then have "\<bar>z - q\<bar> * 10 ^ 9 \<le> 1000 * (q / 2 ^ 52) * 10 ^ 9"
    by (intro mult_right_mono) simp_all
  also have "\<dots> < q"
    using qpos by simp
  finally show ?thesis
    using qpos by (simp add: within_tolerance_def)
qed

lemma in_range_pow2:
  assumes "in_range v"
  shows "pow2 (- 100) \<le> v" "v \<le> pow2 100"
  using assms by (simp_all add: in_range_def pow2_def)

lemma constant_bounds:
  "pow2 (- 1) \<le> 2" "2 \<le> pow2 1"
  "pow2 (- 30) \<le> 1000000000" "1000000000 \<le> pow2 30"
  "pow2 (- 22) \<le> 3600000" "3600000 \<le> pow2 22"
  "pow2 (- 20) \<le> 1000000" "1000000 \<le> pow2 20"
  "pow2 (- 42) \<le> 659000000000" "659000000000 \<le> pow2 42"
  "pow2 (- 42) \<le> 1318000000000" "1318000000000 \<le> pow2 42"
  "pow2 (- 42) \<le> 2636000000000" "2636000000000 \<le> pow2 42"
  by (simp_all add: pow2_def)

lemma efficiency_exact:
  "\<exists>E. efficiency precision = Num E \<and> pow2 (- 42) \<le> E \<and> E \<le> pow2 42
     \<and> E = 659 * 10 ^ 9 * (case precision of FP32 \<Rightarrow> 1 | FP16 \<Rightarrow> 2 | FP8 \<Rightarrow> 4)"
  using constant_bounds by (cases precision) (simp_all add: efficiency_values)

lemma mul_step':
  assumes "tracks x q k n" "pow2 (- m) \<le> y" "y \<le> pow2 m" "k \<le> 1000" "n + m \<le> 1021"
    and "k' = Suc k" "n' = n + m" "q' = q * y"
  shows "\<exists>z. mul (Num x) (Num y) = Num z \<and> tracks z q' k' n'"
  unfolding assms(6-8) by (rule mul_step [OF assms(1-5)])

lemma div_step':
  assumes "tracks x q k n" "pow2 (- m) \<le> y" "y \<le> pow2 m" "k \<le> 1000" "n + m \<le> 1021"
    and "k' = Suc k" "n' = n + m" "q' = q / y"
  shows "\<exists>z. divide_num (Num x) (Num y) = Num z \<and> tracks z q' k' n'"
  unfolding assms(6-8) by (rule div_step [OF assms(1-5)])

lemma chain_relative_error:
  assumes m: "parameters_in_billions m = Num p" and g: "carbonIntensity region = Num g"
    and r: "in_range p" "in_range t" "in_range u" "in_range c" "in_range g"
  shows "(let r = calculateMetrics (Some m) (Num t) precision (Num u) (Num c) region;
              flops = 2 * p * 10 ^ 9 * t;
              kwh = flops / (659 * 10 ^ 9 * (case precision of FP32 \<Rightarrow> 1 | FP16 \<Rightarrow> 2 | FP8 \<Rightarrow> 4))
                      / 3600000 * u
          in within_tolerance (totalFlops r) flops
           \<and> within_tolerance (totalEnergyKwh r) kwh
           \<and> within_tolerance (totalCost r) (kwh * c)
           \<and> within_tolerance (costPer1M r) (kwh / t * 10 ^ 6 * c)
           \<and> within_tolerance (carbonEmissionsKg r) (kwh * g)
           \<and> within_tolerance (energyPerToken r) (kwh / t))"
proof -
  note bp = in_range_pow2 [OF r(1)] and bt = in_range_pow2 [OF r(2)] and bu = in_range_pow2 [OF r(3)]
    and bc = in_range_pow2 [OF r(4)] and bg = in_range_pow2 [OF r(5)]
  obtain E where E: "efficiency precision = Num E" "pow2 (- 42) \<le> E" "E \<le> pow2 42"
    "E = 659 * 10 ^ 9 * (case precision of FP32 \<Rightarrow> 1 | FP16 \<Rightarrow> 2 | FP8 \<Rightarrow> 4)"
    using efficiency_exact by blast
  have ppos: "0 < p"
    using bp(1) pow2_pos [of "- 100"] by linarith
  have guard: "\<not> (\<not> isFinite (parameters_in_billions m) \<or> le (parameters_in_billions m) (Num 0))"
    using ppos by (simp add: m le_def)
  have t0: "tracks 2 2 0 1"
    using constant_bounds(1,2) by (intro tracks_exact) simp_all
  have "\<exists>z. mul (Num 2) (Num p) = Num z \<and> tracks z (2 * p) 1 101"
    by (rule mul_step' [OF t0 bp]) simp_all
  then obtain z1 where z1: "mul (Num 2) (Num p) = Num z1" "tracks z1 (2 * p) 1 101"
    by blast
  have "\<exists>z. mul (Num z1) (Num 1000000000) = Num z \<and> tracks z (2 * p * 1000000000) 2 131"
    by (rule mul_step' [OF z1(2) constant_bounds(3) constant_bounds(4)]) simp_all
  then obtain z2 where z2: "mul (Num z1) (Num 1000000000) = Num z2" "tracks z2 (2 * p * 1000000000) 2 131"
    by blast
  have "\<exists>z. mul (Num z2) (Num t) = Num z \<and> tracks z (2 * p * 1000000000 * t) 3 231"
    by (rule mul_step' [OF z2(2) bt]) simp_all
  then obtain z3 where z3: "mul (Num z2) (Num t) = Num z3" "tracks z3 (2 * p * 1000000000 * t) 3 231"
    by blast
  have "\<exists>z. divide_num (Num z3) (Num E) = Num z \<and> tracks z (2 * p * 1000000000 * t / E) 4 273"
    by (rule div_step' [OF z3(2) E(2) E(3)]) simp_all
  then obtain z4 where z4: "divide_num (Num z3) (Num E) = Num z4" "tracks z4 (2 * p * 1000000000 * t / E) 4 273"
    by blast
  have "\<exists>z. divide_num (Num z4) (Num 3600000) = Num z \<and> tracks z (2 * p * 1000000000 * t / E / 3600000) 5 295"
    by (rule div_step' [OF z4(2) constant_bounds(5) constant_bounds(6)]) simp_all
  then obtain z5 where z5: "divide_num (Num z4) (Num 3600000) = Num z5" "tracks z5 (2 * p * 1000000000 * t / E / 3600000) 5 295"
    by blast
  have "\<exists>z. mul (Num z5) (Num u) = Num z \<and> tracks z (2 * p * 1000000000 * t / E / 3600000 * u) 6 395"
    by (rule mul_step' [OF z5(2) bu]) simp_all
  then obtain z6 where z6: "mul (Num z5) (Num u) = Num z6" "tracks z6 (2 * p * 1000000000 * t / E / 3600000 * u) 6 395"
    by blast
  have "\<exists>z. mul (Num z6) (Num c) = Num z \<and> tracks z (2 * p * 1000000000 * t / E / 3600000 * u * c) 7 495"
    by (rule mul_step' [OF z6(2) bc]) simp_all
  then obtain z7 where z7: "mul (Num z6) (Num c) = Num z7" "tracks z7 (2 * p * 1000000000 * t / E / 3600000 * u * c) 7 495"
    by blast
  have "\<exists>z. divide_num (Num z6) (Num t) = Num z \<and> tracks z (2 * p * 1000000000 * t / E / 3600000 * u / t) 7 495"
    by (rule div_step' [OF z6(2) bt]) simp_all
  then obtain z8 where z8: "divide_num (Num z6) (Num t) = Num z8" "tracks z8 (2 * p * 1000000000 * t / E / 3600000 * u / t) 7 495"
    by blast
  have "\<exists>z. mul (Num z8) (Num 1000000) = Num z \<and> tracks z (2 * p * 1000000000 * t / E / 3600000 * u / t * 1000000) 8 515"
    by (rule mul_step' [OF z8(2) constant_bounds(7) constant_bounds(8)]) simp_all
  then obtain z9 where z9: "mul (Num z8) (Num 1000000) = Num z9" "tracks z9 (2 * p * 1000000000 * t / E / 3600000 * u / t * 1000000) 8 515"
    by blast
  have "\<exists>z. mul (Num z9) (Num c) = Num z \<and> tracks z (2 * p * 1000000000 * t / E / 3600000 * u / t * 1000000 * c) 9 615"
    by (rule mul_step' [OF z9(2) bc]) simp_all
  then obtain z10 where z10: "mul (Num z9) (Num c) = Num z10" "tracks z10 (2 * p * 1000000000 * t / E / 3600000 * u / t * 1000000 * c) 9 615"
    by blast
  have "\<exists>z. mul (Num z6) (Num g) = Num z \<and> tracks z (2 * p * 1000000000 * t / E / 3600000 * u * g) 7 495"
    by (rule mul_step' [OF z6(2) bg]) simp_all
  then obtain z11 where z11: "mul (Num z6) (Num g) = Num z11" "tracks z11 (2 * p * 1000000000 * t / E / 3600000 * u * g) 7 495"
    by blast
  have res: "calculateMetrics (Some m) (Num t) precision (Num u) (Num c) region =
      \<lparr>totalCost = Num z7, costPer1M = Num z10, totalEnergyKwh = Num z6,
       carbonEmissionsKg = Num z11, totalFlops = Num z3, energyPerToken = Num z8\<rparr>"
    using guard
    by (simp only: calculateMetrics_def option.case if_False Let_def m g E(1) z1(1) z2(1) z3(1)
        z4(1) z5(1) z6(1) z7(1) z8(1) z9(1) z10(1) z11(1))
  have tol: "within_tolerance (Num z3) (2 * p * 1000000000 * t)"
    "within_tolerance (Num z6) (2 * p * 1000000000 * t / E / 3600000 * u)"
    "within_tolerance (Num z7) (2 * p * 1000000000 * t / E / 3600000 * u * c)"
    "within_tolerance (Num z10) (2 * p * 1000000000 * t / E / 3600000 * u / t * 1000000 * c)"
    "within_tolerance (Num z11) (2 * p * 1000000000 * t / E / 3600000 * u * g)"
    "within_tolerance (Num z8) (2 * p * 1000000000 * t / E / 3600000 * u / t)"
    using z3(2) z6(2) z7(2) z10(2) z11(2) z8(2) by (auto intro: tracks_tolerance)
  show ?thesis
    unfolding res Let_def using tol by (simp add: E(4))
qed

lemma round_double_overflow:
  assumes "pow2 1024 \<le> w"
  shows "round_double w = PosInfinity"
proof -
  have w: "0 < w"
    using assms pow2_pos [of 1024] by linarith
  from ilog2_bounds [OF w] have "w < pow2 (ilog2 w + 1)"
    by simp
  with assms have "pow2 1024 < pow2 (ilog2 w + 1)"
    by linarith
  then have "1024 \<le> ilog2 w"
    using pow2_less_D [of 1024 "ilog2 w + 1"] by simp
  then have "1024 \<le> max (ilog2 w) (- 1022)"
    by simp
  then show ?thesis
    using w by (simp only: round_double_def Let_def abs_of_pos [OF w]) simp
qed

lemma twice_pow2_1023: "mul (Num 2) (Num (pow2 1023)) = PosInfinity"
proof -
  have "2 * pow2 1023 = pow2 1024"
    using pow2_add [of 1 1023] by (simp add: pow2_def)
  then show ?thesis
    by (simp add: round_double_overflow)
qed

lemma power_1023: "(2::rat) ^ 1023 = pow2 1023"
  by (simp only: pow2_def) simp

text \<open>
  C1, as stated, fails: \<open>2^1023\<close> billion parameters are finite and strictly positive, yet
  with one token \<open>2 * parameters_in_billions\<close> overflows and \<open>totalFlops\<close> is
  \<open>Infinity\<close>, which is not within any relative error of
  \<open>2 * parameters_in_billions * 1e9 * tokenCount\<close>.
\<close>

theorem calculateMetrics_overflow_counterexample:
  "isFinite (Num (2 ^ 1023)) \<and> lt (Num 0) (Num (2 ^ 1023)) \<and> lt (Num 0) (Num 1)
   \<and> totalFlops (calculateMetrics
        (Some \<lparr>name = ''Huge'', parameters_in_billions = Num (2 ^ 1023),
               emissions_per_token_kWh = Num 0\<rparr>)
        (Num 1) FP32 (Num 1) (Num 1) \<lparr>region_name = ''Japan'', carbonIntensity = Num 1\<rparr>)
      = PosInfinity
   \<and> \<not> within_tolerance PosInfinity (2 * 2 ^ 1023 * 10 ^ 9 * 1)"
proof -
  have g: "\<not> le (Num (pow2 1023)) (Num 0)"
    using pow2_pos [of 1023] by (simp add: le_def)
  have "totalFlops (calculateMetrics
        (Some \<lparr>name = ''Huge'', parameters_in_billions = Num (pow2 1023),
               emissions_per_token_kWh = Num 0\<rparr>)
        (Num 1) FP32 (Num 1) (Num 1) \<lparr>region_name = ''Japan'', carbonIntensity = Num 1\<rparr>)
      = mul (mul (mul (Num 2) (Num (pow2 1023))) (Num 1000000000)) (Num 1)"
    using g by (simp add: calculateMetrics_def Let_def del: mul.simps)
  also have "\<dots> = PosInfinity"
    unfolding twice_pow2_1023 by simp
  finally show ?thesis
    unfolding power_1023 using pow2_pos [of 1023] by (simp add: within_tolerance_def)
qed

text \<open>
  C1, amended. For a model whose \<open>parameters_in_billions\<close>, and a token count, PUE, price
  and carbon intensity that lie between \<open>2^-100\<close> and \<open>2^100\<close>, and for every precision, each
  field that \<open>calculateMetrics\<close> returns is finite and within a relative error below 1e-9
  of the exact value of its formula:
  \<open>totalFlops = 2 * parameters_in_billions * 1e9 * tokenCount\<close>,
  \<open>totalEnergyKwh = totalFlops / (6.59e11 * m) / 3.6e6 * pue\<close> with \<open>m\<close> = 1, 2, 4 for
  FP32, FP16, FP8, \<open>totalCost = totalEnergyKwh * electricityPrice\<close>,
  \<open>costPer1M = totalEnergyKwh / tokenCount * 1e6 * electricityPrice\<close>,
  \<open>carbonEmissionsKg = totalEnergyKwh * carbonIntensity\<close> and
  \<open>energyPerToken = totalEnergyKwh / tokenCount\<close>. The scenario of 70 billion parameters,
  1,000,000 tokens, FP16, PUE 1.2, price 0.152 and carbon intensity 0.345 gives
  \<open>totalFlops = 1.4e17\<close> with \<open>efficiency = 1.318e12\<close>, and its other fields are within that
  error of the exact values for the decimal inputs.
\<close>

theorem calculateMetrics_relative_error:
  assumes "parameters_in_billions m = Num p" and "carbonIntensity region = Num g"
    and "in_range p" "in_range t" "in_range u" "in_range c" "in_range g"
  shows "(let r = calculateMetrics (Some m) (Num t) precision (Num u) (Num c) region;
              flops = 2 * p * 10 ^ 9 * t;
              kwh = flops / (659 * 10 ^ 9 * (case precision of FP32 \<Rightarrow> 1 | FP16 \<Rightarrow> 2 | FP8 \<Rightarrow> 4))
                      / 3600000 * u
          in within_tolerance (totalFlops r) flops
           \<and> within_tolerance (totalEnergyKwh r) kwh
           \<and> within_tolerance (totalCost r) (kwh * c)
           \<and> within_tolerance (costPer1M r) (kwh / t * 10 ^ 6 * c)
           \<and> within_tolerance (carbonEmissionsKg r) (kwh * g)
           \<and> within_tolerance (energyPerToken r) (kwh / t))
       \<and> (let s = calculateMetrics
            (Some \<lparr>name = nm, parameters_in_billions = Num 70, emissions_per_token_kWh = em\<rparr>)
            (Num 1000000) FP16 (round_double (12 / 10)) (round_double (152 / 1000))
            \<lparr>region_name = rn, carbonIntensity = round_double (345 / 1000)\<rparr>;
                kwh = 2 * 70 * 10 ^ 9 * 10 ^ 6 / (659 * 10 ^ 9 * 2) / 3600000 * (12 / 10)
            in totalFlops s = Num 140000000000000000
             \<and> efficiency FP16 = Num 1318000000000
             \<and> within_tolerance (totalEnergyKwh s) kwh
             \<and> within_tolerance (totalCost s) (kwh * (152 / 1000))
             \<and> within_tolerance (costPer1M s) (kwh / 10 ^ 6 * 10 ^ 6 * (152 / 1000))
             \<and> within_tolerance (carbonEmissionsKg s) (kwh * (345 / 1000))
             \<and> within_tolerance (energyPerToken s) (kwh / 10 ^ 6))"
proof (rule conjI)
  show "(let r = calculateMetrics (Some m) (Num t) precision (Num u) (Num c) region;
              flops = 2 * p * 10 ^ 9 * t;
              kwh = flops / (659 * 10 ^ 9 * (case precision of FP32 \<Rightarrow> 1 | FP16 \<Rightarrow> 2 | FP8 \<Rightarrow> 4))
                      / 3600000 * u
          in within_tolerance (totalFlops r) flops
           \<and> within_tolerance (totalEnergyKwh r) kwh
           \<and> within_tolerance (totalCost r) (kwh * c)
           \<and> within_tolerance (costPer1M r) (kwh / t * 10 ^ 6 * c)
           \<and> within_tolerance (carbonEmissionsKg r) (kwh * g)
           \<and> within_tolerance (energyPerToken r) (kwh / t))"
    by (rule chain_relative_error [OF assms])
  have "calculateMetrics
            (Some \<lparr>name = nm, parameters_in_billions = Num 70, emissions_per_token_kWh = em\<rparr>)
            (Num 1000000) FP16 (round_double (12 / 10)) (round_double (152 / 1000))
            \<lparr>region_name = rn, carbonIntensity = round_double (345 / 1000)\<rparr>
      = calculateMetrics
            (Some \<lparr>name = [], parameters_in_billions = Num 70, emissions_per_token_kWh = Num 0\<rparr>)
            (Num 1000000) FP16 (round_double (12 / 10)) (round_double (152 / 1000))
            \<lparr>region_name = [], carbonIntensity = round_double (345 / 1000)\<rparr>"
    by (simp add: calculateMetrics_def)
  then show "(let s = calculateMetrics
            (Some \<lparr>name = nm, parameters_in_billions = Num 70, emissions_per_token_kWh = em\<rparr>)
            (Num 1000000) FP16 (round_double (12 / 10)) (round_double (152 / 1000))
            \<lparr>region_name = rn, carbonIntensity = round_double (345 / 1000)\<rparr>;
                kwh = 2 * 70 * 10 ^ 9 * 10 ^ 6 / (659 * 10 ^ 9 * 2) / 3600000 * (12 / 10)
            in totalFlops s = Num 140000000000000000
             \<and> efficiency FP16 = Num 1318000000000
             \<and> within_tolerance (totalEnergyKwh s) kwh
             \<and> within_tolerance (totalCost s) (kwh * (152 / 1000))
             \<and> within_tolerance (costPer1M s) (kwh / 10 ^ 6 * 10 ^ 6 * (152 / 1000))
             \<and> within_tolerance (carbonEmissionsKg s) (kwh * (345 / 1000))
             \<and> within_tolerance (energyPerToken s) (kwh / 10 ^ 6))"
    using scenario_values by (simp only: simp_thms)
qed

theorem calculateMetrics_relative_error_witness:
  "parameters_in_billions
      \<lparr>name = ''Llama 2 70B'', parameters_in_billions = Num 70,
        emissions_per_token_kWh = round_double (5316 / 10 ^ 10)\<rparr> = Num 70
   \<and> carbonIntensity \<lparr>region_name = ''Test grid'', carbonIntensity = Num (1 / 2)\<rparr> = Num (1 / 2)
   \<and> in_range 70 \<and> in_range 1000000 \<and> in_range (3 / 2) \<and> in_range (1 / 8) \<and> in_range (1 / 2)
   \<and> within_tolerance (totalFlops (calculateMetrics
          (Some \<lparr>name = ''Llama 2 70B'', parameters_in_billions = Num 70,
                 emissions_per_token_kWh = round_double (5316 / 10 ^ 10)\<rparr>)
          (Num 1000000) FP16 (Num (3 / 2)) (Num (1 / 8))
          \<lparr>region_name = ''Test grid'', carbonIntensity = Num (1 / 2)\<rparr>))
        (2 * 70 * 10 ^ 9 * 1000000)
   \<and> within_tolerance (energyPerToken (calculateMetrics
          (Some \<lparr>name = ''Llama 2 70B'', parameters_in_billions = Num 70,
                 emissions_per_token_kWh = round_double (5316 / 10 ^ 10)\<rparr>)
          (Num 1000000) FP16 (Num (3 / 2)) (Num (1 / 8))
          \<lparr>region_name = ''Test grid'', carbonIntensity = Num (1 / 2)\<rparr>))
        (2 * 70 * 10 ^ 9 * 1000000 / (659 * 10 ^ 9 * 2) / 3600000 * (3 / 2) / 1000000)"
proof -
  have r: "in_range 70" "in_range 1000000" "in_range (3 / 2)" "in_range (1 / 8)" "in_range (1 / 2)"
    by (simp_all add: in_range_def)
  have m: "parameters_in_billions
      \<lparr>name = ''Llama 2 70B'', parameters_in_billions = Num 70,
        emissions_per_token_kWh = round_double (5316 / 10 ^ 10)\<rparr> = Num 70"
    and g: "carbonIntensity \<lparr>region_name = ''Test grid'', carbonIntensity = Num (1 / 2)\<rparr> = Num (1 / 2)"
    by simp_all
  show ?thesis
    using calculateMetrics_relative_error [OF m g r, where precision = FP16] r
    by (simp add: Let_def)
qed

text \<open>
  C2. \<open>calculateMetrics\<close> returns the all-zero result when the model is \<^verbatim>\<open>null\<close>, and when
  its \<open>parameters_in_billions\<close> is not finite or not strictly positive, whatever the other
  arguments are.
\<close>

theorem calculateMetrics_invalid_model_zero:
  "calculateMetrics None tokenCount precision pue electricityPrice region = zeroResult
   \<and> (\<not> isFinite (parameters_in_billions m) \<or> \<not> lt (Num 0) (parameters_in_billions m)
        \<longrightarrow> calculateMetrics (Some m) tokenCount precision pue electricityPrice region = zeroResult)"
  using not_lt_zero_le [of "parameters_in_billions m"]
  by (auto simp: calculateMetrics_def)

theorem calculateMetrics_invalid_model_zero_witness:
  "calculateMetrics None (Num 1000) FP8 (Num 1) (Num 1) \<lparr>region_name = ''Japan'', carbonIntensity = Num 1\<rparr>
     = zeroResult
   \<and> \<not> lt (Num 0) (Num 0)
   \<and> calculateMetrics
        (Some \<lparr>name = ''Empty'', parameters_in_billions = Num 0, emissions_per_token_kWh = Num 0\<rparr>)
        (Num 1000) FP8 (Num 1) (Num 1) \<lparr>region_name = ''Japan'', carbonIntensity = Num 1\<rparr> = zeroResult
   \<and> \<not> isFinite NaN
   \<and> calculateMetrics
        (Some \<lparr>name = ''Broken'', parameters_in_billions = NaN, emissions_per_token_kWh = NaN\<rparr>)
        (Num 1000) FP8 (Num 1) (Num 1) \<lparr>region_name = ''Japan'', carbonIntensity = Num 1\<rparr> = zeroResult"
  using calculateMetrics_invalid_model_zero
      [of "Num 1000" FP8 "Num 1" "Num 1" "\<lparr>region_name = ''Japan'', carbonIntensity = Num 1\<rparr>"
          "\<lparr>name = ''Empty'', parameters_in_billions = Num 0, emissions_per_token_kWh = Num 0\<rparr>"]
    calculateMetrics_invalid_model_zero
      [of "Num 1000" FP8 "Num 1" "Num 1" "\<lparr>region_name = ''Japan'', carbonIntensity = Num 1\<rparr>"
          "\<lparr>name = ''Broken'', parameters_in_billions = NaN, emissions_per_token_kWh = NaN\<rparr>"]
  by simp

lemma round_double_0: "round_double 0 = Num 0"
  by (simp add: round_double_def)

lemma mul_by_zero: "zero_or_NaN (mul x (Num 0))"
  by (cases x) (simp_all add: zero_or_NaN_def round_double_0)

lemma mul_finite_by_zero: "isFinite x \<Longrightarrow> mul x (Num 0) = Num 0"
  by (cases x) (simp_all add: round_double_0)

lemma zero_or_NaN_mul: "zero_or_NaN x \<Longrightarrow> zero_or_NaN (mul x y)"
  by (cases y) (auto simp: zero_or_NaN_def round_double_0)

lemma zero_mul_finite: "isFinite y \<Longrightarrow> mul (Num 0) y = Num 0"
  by (cases y) (simp_all add: round_double_0)

lemma zero_or_NaN_divide: "zero_or_NaN x \<Longrightarrow> d \<noteq> 0 \<Longrightarrow> zero_or_NaN (divide_num x (Num d))"
  by (auto simp: zero_or_NaN_def round_double_0)

lemma zero_or_NaN_divide_zero: "zero_or_NaN x \<Longrightarrow> divide_num x (Num 0) = NaN"
  by (auto simp: zero_or_NaN_def)

lemma efficiency_nonzero: "\<exists>d. d \<noteq> 0 \<and> efficiency precision = Num d"
  by (cases precision) (simp_all add: efficiency_values)

lemma zero_tokens_energyPerToken:
  "energyPerToken (calculateMetrics
      (Some \<lparr>name = ''Llama 2 70B'', parameters_in_billions = Num 70,
             emissions_per_token_kWh = Num 0\<rparr>)
      (Num 0) FP16 (Num 1) (Num 1) \<lparr>region_name = ''Japan'', carbonIntensity = Num 1\<rparr>) = NaN"
  by code_simp

lemma negative_tokens_totalFlops:
  "totalFlops (calculateMetrics
      (Some \<lparr>name = ''Llama 2 70B'', parameters_in_billions = Num 70,
             emissions_per_token_kWh = Num 0\<rparr>)
      (Num (- 1)) FP16 (Num 1) (Num 1) \<lparr>region_name = ''Japan'', carbonIntensity = Num 1\<rparr>)
     = Num (- 140000000000)"
  by code_simp

text \<open>
  C3, as stated, fails: with 70 billion parameters and a token count of 0 the result is
  not the all-zero result, and \<open>energyPerToken\<close> is NaN; with a token count of -1,
  \<open>totalFlops\<close> is -1.4e11.
\<close>

theorem calculateMetrics_zero_tokens_counterexample:
  "energyPerToken (calculateMetrics
      (Some \<lparr>name = ''Llama 2 70B'', parameters_in_billions = Num 70,
             emissions_per_token_kWh = Num 0\<rparr>)
      (Num 0) FP16 (Num 1) (Num 1) \<lparr>region_name = ''Japan'', carbonIntensity = Num 1\<rparr>) = NaN
   \<and> calculateMetrics
      (Some \<lparr>name = ''Llama 2 70B'', parameters_in_billions = Num 70,
             emissions_per_token_kWh = Num 0\<rparr>)
      (Num 0) FP16 (Num 1) (Num 1) \<lparr>region_name = ''Japan'', carbonIntensity = Num 1\<rparr> \<noteq> zeroResult
   \<and> totalFlops (calculateMetrics
      (Some \<lparr>name = ''Llama 2 70B'', parameters_in_billions = Num 70,
             emissions_per_token_kWh = Num 0\<rparr>)
      (Num (- 1)) FP16 (Num 1) (Num 1) \<lparr>region_name = ''Japan'', carbonIntensity = Num 1\<rparr>)
     = Num (- 140000000000)"
proof -
  have "energyPerToken zeroResult \<noteq> NaN"
    by (simp add: zeroResult_def)
  then show ?thesis
    using zero_tokens_energyPerToken negative_tokens_totalFlops by metis
qed

text \<open>
  C3, amended. \<open>calculateMetrics\<close> has no guard on the token count. For a model with
  finite, strictly positive \<open>parameters_in_billions\<close> and a token count of 0 it returns a
  result (there is no throwing path) in which \<open>costPer1M\<close> and \<open>energyPerToken\<close> are NaN,
  from the division 0 / 0; \<open>totalFlops\<close>, \<open>totalEnergyKwh\<close>, \<open>totalCost\<close> and
  \<open>carbonEmissionsKg\<close> are 0 when \<open>2 * parameters_in_billions * 1e9\<close>, the PUE, the price
  and the carbon intensity are finite. For every token count, negative ones included,
  \<open>totalFlops\<close> is the product \<open>2 * parameters_in_billions * 1e9 * tokenCount\<close>.
\<close>

theorem calculateMetrics_zero_tokens:
  assumes "isFinite (parameters_in_billions m)"
    and "lt (Num 0) (parameters_in_billions m)"
  shows "(let r = calculateMetrics (Some m) (Num 0) precision pue electricityPrice region
          in costPer1M r = NaN \<and> energyPerToken r = NaN
           \<and> (isFinite (mul (mul (Num 2) (parameters_in_billions m)) (Num 1000000000))
                \<and> isFinite pue \<and> isFinite electricityPrice \<and> isFinite (carbonIntensity region)
              \<longrightarrow> totalFlops r = Num 0 \<and> totalEnergyKwh r = Num 0 \<and> totalCost r = Num 0
                  \<and> carbonEmissionsKg r = Num 0))
       \<and> totalFlops (calculateMetrics (Some m) tokenCount precision pue electricityPrice region)
           = mul (mul (mul (Num 2) (parameters_in_billions m)) (Num 1000000000)) tokenCount"
proof -
  define x where "x = mul (mul (Num 2) (parameters_in_billions m)) (Num 1000000000)"
  define fl where "fl = mul x (Num 0)"
  define en where "en = mul (divide_num (divide_num fl (efficiency precision)) (Num 3600000)) pue"
  obtain d where d: "d \<noteq> 0" "efficiency precision = Num d"
    using efficiency_nonzero by blast
  have guard: "\<not> (\<not> isFinite (parameters_in_billions m) \<or> le (parameters_in_billions m) (Num 0))"
    using assms lt_zero_not_le by blast
  have r: "calculateMetrics (Some m) (Num 0) precision pue electricityPrice region =
      \<lparr>totalCost = mul en electricityPrice,
       costPer1M = mul (mul (divide_num en (Num 0)) (Num 1000000)) electricityPrice,
       totalEnergyKwh = en, carbonEmissionsKg = mul en (carbonIntensity region),
       totalFlops = fl, energyPerToken = divide_num en (Num 0)\<rparr>"
    using guard by (simp add: calculateMetrics_def Let_def en_def fl_def x_def)
  have zfl: "zero_or_NaN fl"
    unfolding fl_def by (rule mul_by_zero)
  have zen: "zero_or_NaN en"
    unfolding en_def d(2)
    by (intro zero_or_NaN_mul zero_or_NaN_divide zfl d(1)) simp
  have nan: "divide_num en (Num 0) = NaN"
    using zen by (rule zero_or_NaN_divide_zero)
  have fin: "fl = Num 0 \<and> en = Num 0 \<and> mul en electricityPrice = Num 0
      \<and> mul en (carbonIntensity region) = Num 0"
    if "isFinite x" "isFinite pue" "isFinite electricityPrice" "isFinite (carbonIntensity region)"
  proof -
    have f0: "fl = Num 0"
      unfolding fl_def using that(1) by (rule mul_finite_by_zero)
    have "divide_num (divide_num fl (efficiency precision)) (Num 3600000) = Num 0"
      using d(1) by (simp add: f0 d(2) round_double_0)
    then have e0: "en = Num 0"
      unfolding en_def using that(2) by (simp add: zero_mul_finite)
    show ?thesis
      using f0 e0 that(3,4) by (simp add: zero_mul_finite)
  qed
  have any: "totalFlops (calculateMetrics (Some m) tokenCount precision pue electricityPrice region)
      = mul (mul (mul (Num 2) (parameters_in_billions m)) (Num 1000000000)) tokenCount"
    using guard by (simp add: calculateMetrics_def Let_def)
  have "costPer1M (calculateMetrics (Some m) (Num 0) precision pue electricityPrice region) = NaN
      \<and> energyPerToken (calculateMetrics (Some m) (Num 0) precision pue electricityPrice region) = NaN
      \<and> (isFinite (mul (mul (Num 2) (parameters_in_billions m)) (Num 1000000000))
                \<and> isFinite pue \<and> isFinite electricityPrice \<and> isFinite (carbonIntensity region)
           \<longrightarrow> totalFlops (calculateMetrics (Some m) (Num 0) precision pue electricityPrice region) = Num 0
             \<and> totalEnergyKwh (calculateMetrics (Some m) (Num 0) precision pue electricityPrice region) = Num 0
             \<and> totalCost (calculateMetrics (Some m) (Num 0) precision pue electricityPrice region) = Num 0
             \<and> carbonEmissionsKg (calculateMetrics (Some m) (Num 0) precision pue electricityPrice region) = Num 0)"
    unfolding r using nan fin by (auto simp: x_def)
  with any show ?thesis
    unfolding Let_def by blast
qed

lemma product_140e9: "mul (mul (Num 2) (Num 70)) (Num 1000000000) = Num 140000000000"
  by code_simp

theorem calculateMetrics_zero_tokens_witness:
  "isFinite (Num 70) \<and> lt (Num 0) (Num 70)
   \<and> isFinite (mul (mul (Num 2) (Num 70)) (Num 1000000000))
   \<and> (let r = calculateMetrics
          (Some \<lparr>name = ''Llama 2 70B'', parameters_in_billions = Num 70, emissions_per_token_kWh = Num 0\<rparr>)
          (Num 0) FP16 (Num 1) (Num 1) \<lparr>region_name = ''Japan'', carbonIntensity = Num 1\<rparr>
       in costPer1M r = NaN \<and> energyPerToken r = NaN \<and> totalFlops r = Num 0
        \<and> totalEnergyKwh r = Num 0 \<and> totalCost r = Num 0 \<and> carbonEmissionsKg r = Num 0)
   \<and> totalFlops (calculateMetrics
          (Some \<lparr>name = ''Llama 2 70B'', parameters_in_billions = Num 70, emissions_per_token_kWh = Num 0\<rparr>)
          (Num (- 1)) FP16 (Num 1) (Num 1) \<lparr>region_name = ''Japan'', carbonIntensity = Num 1\<rparr>)
       = mul (Num 140000000000) (Num (- 1))"
proof -
  have h: "isFinite (parameters_in_billions
             \<lparr>name = ''Llama 2 70B'', parameters_in_billions = Num 70, emissions_per_token_kWh = Num 0\<rparr>)"
    "lt (Num 0) (parameters_in_billions
             \<lparr>name = ''Llama 2 70B'', parameters_in_billions = Num 70, emissions_per_token_kWh = Num 0\<rparr>)"
    by simp_all
  show ?thesis
    using calculateMetrics_zero_tokens [OF h, where precision = FP16 and pue = "Num 1"
        and electricityPrice = "Num 1"
        and region = "\<lparr>region_name = ''Japan'', carbonIntensity = Num 1\<rparr>"
        and tokenCount = "Num (- 1)"] product_140e9
    by (simp add: Let_def del: mul.simps)
qed

text \<open>
  C9. The result of \<open>calculateMetrics\<close> depends on the model only through
  \<open>parameters_in_billions\<close> (or its being \<^verbatim>\<open>null\<close>) and on the region only through
  \<open>carbonIntensity\<close>: two calls that agree on these and on the token count, precision, PUE
  and price return the same result, whatever the names and \<open>emissions_per_token_kWh\<close> are.
\<close>

theorem calculateMetrics_noninterference:
  assumes "map_option parameters_in_billions model1 = map_option parameters_in_billions model2"
    and "carbonIntensity region1 = carbonIntensity region2"
  shows "calculateMetrics model1 tokenCount precision pue electricityPrice region1
       = calculateMetrics model2 tokenCount precision pue electricityPrice region2"
  using assms by (cases model1; cases model2) (simp_all add: calculateMetrics_def)

theorem calculateMetrics_noninterference_witness:
  "map_option parameters_in_billions
      (Some \<lparr>name = ''Llama 2 70B'', parameters_in_billions = Num 70, emissions_per_token_kWh = Num 1\<rparr>)
     = map_option parameters_in_billions
      (Some \<lparr>name = ''WizardLM 70B'', parameters_in_billions = Num 70, emissions_per_token_kWh = Num 2\<rparr>)
   \<and> carbonIntensity \<lparr>region_name = ''Japan'', carbonIntensity = Num 1\<rparr>
     = carbonIntensity \<lparr>region_name = ''Germany'', carbonIntensity = Num 1\<rparr>
   \<and> calculateMetrics
        (Some \<lparr>name = ''Llama 2 70B'', parameters_in_billions = Num 70, emissions_per_token_kWh = Num 1\<rparr>)
        (Num 1000) FP32 (Num 1) (Num 1) \<lparr>region_name = ''Japan'', carbonIntensity = Num 1\<rparr>
     = calculateMetrics
        (Some \<lparr>name = ''WizardLM 70B'', parameters_in_billions = Num 70, emissions_per_token_kWh = Num 2\<rparr>)
        (Num 1000) FP32 (Num 1) (Num 1) \<lparr>region_name = ''Germany'', carbonIntensity = Num 1\<rparr>"
  using calculateMetrics_noninterference
    [of "Some \<lparr>name = ''Llama 2 70B'', parameters_in_billions = Num 70, emissions_per_token_kWh = Num 1\<rparr>"
        "Some \<lparr>name = ''WizardLM 70B'', parameters_in_billions = Num 70, emissions_per_token_kWh = Num 2\<rparr>"
        "\<lparr>region_name = ''Japan'', carbonIntensity = Num 1\<rparr>"
        "\<lparr>region_name = ''Germany'', carbonIntensity = Num 1\<rparr>"
        "Num 1000" FP32 "Num 1" "Num 1"]
  by simp

section \<open>Properties of the scan for parameter counts\<close>

lemma run_le: "i + run P s i \<le> length s \<or> run P s i = 0"
proof -
  have "run P s i \<le> length s - i"
    unfolding run_def using length_takeWhile_le [of P "drop i s"] by simp
  then show ?thesis
    by arith
qed

lemma run_pos: "0 < run P s i \<Longrightarrow> i < length s \<and> P (s ! i)"
proof -
  assume "0 < run P s i"
  then have ne: "takeWhile P (drop i s) \<noteq> []"
    by (simp add: run_def)
  then have d: "drop i s \<noteq> []"
    by auto
  then have i: "i < length s"
    by simp
  from ne d have "P (hd (drop i s))"
    by (cases "drop i s") (auto split: if_splits)
  with i show ?thesis
    by (simp add: hd_drop_conv_nth)
qed

lemma m_plus_D:
  assumes "k \<in> set (m_plus P s i)"
  shows "i < k \<and> i < length s \<and> P (s ! i) \<and> k \<le> length s"
proof -
  from assms obtain d where d: "k = i + d" "1 \<le> d" "d \<le> run P s i"
    by (auto simp: m_plus_def)
  then have pos: "0 < run P s i"
    by simp
  then have "i + run P s i \<le> length s"
    using run_le [of i P s] by simp
  with run_pos [OF pos] d show ?thesis
    by simp
qed

lemma m_seq_iff: "k \<in> set (m_seq m1 m2 s i) \<longleftrightarrow> (\<exists>j \<in> set (m1 s i). k \<in> set (m2 s j))"
  by (auto simp: m_seq_def)

lemma number_pattern_D:
  assumes "k \<in> set (number_pattern s i)"
  shows "i < k \<and> i < length s \<and> is_digit (s ! i) \<and> k \<le> length s"
proof -
  from assms obtain j where j: "j \<in> set (m_plus is_digit s i)"
    and k: "k \<in> set (m_opt (m_seq (m_class (\<lambda>c. c = CHR ''.'')) (m_plus is_digit)) s j)"
    by (auto simp: number_pattern_def m_seq_iff)
  from k have "k = j \<or> (\<exists>d \<in> set (m_class (\<lambda>c. c = CHR ''.'') s j). k \<in> set (m_plus is_digit s d))"
    by (auto simp: m_opt_def m_seq_iff)
  then have "j \<le> k \<and> k \<le> length s"
  proof
    assume "k = j"
    with m_plus_D [OF j] show ?thesis by simp
  next
    assume "\<exists>d \<in> set (m_class (\<lambda>c. c = CHR ''.'') s j). k \<in> set (m_plus is_digit s d)"
    then obtain d where "d = Suc j" "k \<in> set (m_plus is_digit s d)"
      by (auto simp: m_class_def split: if_splits)
    with m_plus_D [of k is_digit s d] show ?thesis by simp
  qed
  with m_plus_D [OF j] show ?thesis
    by simp
qed

lemma parameterRegex_at_D:
  assumes "parameterRegex_at s i = Some (num, u, e)"
  shows "u \<in> set s \<and> is_unit_letter u \<and> takeWhile is_digit num \<noteq> []"
proof -
  from assms obtain k l f rest where
    c: "concat (map (\<lambda>b. concat (map (\<lambda>k. concat (map (\<lambda>l. concat (map (\<lambda>e.
                   map (\<lambda>f. (k, l, f)) (m_boundary s e))
                 (m_class is_unit_letter s l)))
               (m_star is_space s k)))
             (number_pattern s b)))
           (m_boundary s i)) = (k, l, f) # rest"
    and r: "num = take (k - i) (drop i s)" "u = s ! l"
    by (auto simp: parameterRegex_at_def split: list.splits)
  have "(k, l, f) \<in> set ((k, l, f) # rest)"
    by simp
  then have "k \<in> set (number_pattern s i) \<and> m_class is_unit_letter s l \<noteq> []"
    unfolding c [symmetric] by (auto simp: m_boundary_def split: if_splits)
  then have k: "k \<in> set (number_pattern s i)" and l: "l < length s" "is_unit_letter (s ! l)"
    by (auto simp: m_class_def split: if_splits)
  from number_pattern_D [OF k] have i: "i < k" "i < length s" "is_digit (s ! i)"
    by simp_all
  have ki: "k - i = Suc (k - Suc i)"
    using i(1) by simp
  have dr: "drop i s = s ! i # drop (Suc i) s"
    using i(2) by (simp add: Cons_nth_drop_Suc)
  have "num = take (Suc (k - Suc i)) (s ! i # drop (Suc i) s)"
    unfolding r by (simp only: ki dr)
  then have "takeWhile is_digit num \<noteq> []"
    using i(3) by simp
  with l r(2) show ?thesis
    by simp
qed

lemma matchAll_from_D:
  "(num, u) \<in> set (matchAll_from s i) \<Longrightarrow> u \<in> set s \<and> is_unit_letter u \<and> takeWhile is_digit num \<noteq> []"
proof (induction s i rule: matchAll_from.induct)
  case (1 s i)
  show ?case
  proof (cases "length s < i")
    case True
    with "1.prems" show ?thesis
      by (simp add: matchAll_from.simps [of s i])
  next
    case False
    show ?thesis
    proof (cases "parameterRegex_at s i")
      case None
      with False "1.prems" "1.IH"(1) show ?thesis
        by (simp add: matchAll_from.simps [of s i])
    next
      case (Some r)
      obtain n' u' e' where r: "r = (n', u', e')"
        by (cases r)
      with Some False "1.prems" have "(num, u) = (n', u') \<or> (num, u) \<in> set (matchAll_from s (max (Suc i) e'))"
        by (simp add: matchAll_from.simps [of s i])
      then show ?thesis
      proof
        assume "(num, u) = (n', u')"
        with parameterRegex_at_D [of s i n' u' e'] Some r show ?thesis
          by simp
      next
        assume "(num, u) \<in> set (matchAll_from s (max (Suc i) e'))"
        with "1.IH"(2) [OF False Some r [symmetric]] r show ?thesis
          by simp
      qed
    qed
  qed
qed

lemma matchAll_D:
  "(num, u) \<in> set (matchAll s) \<Longrightarrow> u \<in> set s \<and> is_unit_letter u \<and> takeWhile is_digit num \<noteq> []"
  unfolding matchAll_def by (rule matchAll_from_D)

lemma round_double_not_NaN: "round_double q \<noteq> NaN"
  by (simp add: round_double_def Let_def)

lemma parseFloat_not_NaN: "takeWhile is_digit s \<noteq> [] \<Longrightarrow> parseFloat s \<noteq> NaN"
  by (simp add: parseFloat_def Let_def round_double_not_NaN split: list.splits)

lemma mul_1000_not_NaN: "x \<noteq> NaN \<Longrightarrow> mul x (Num 1000) \<noteq> NaN"
  by (cases x) (simp_all add: round_double_not_NaN)

lemma parameterCount_not_NaN:
  assumes "m \<in> set (matchAll s)"
  shows "parameterCount m \<noteq> NaN"
proof -
  obtain num u where m: "m = (num, u)"
    by (cases m)
  with assms matchAll_D [of num u s] have "parseFloat num \<noteq> NaN"
    by (simp add: parseFloat_not_NaN)
  then show ?thesis
    by (simp add: parameterCount_def m Let_def mul_1000_not_NaN)
qed

lemma le_refl_num: "a \<noteq> NaN \<Longrightarrow> le a a"
  by (simp add: le_def)

lemma lt_trans_num: "lt a b \<Longrightarrow> lt b c \<Longrightarrow> lt a c"
  by (cases a; cases b; cases c) simp_all

lemma le_trans_num: "le a b \<Longrightarrow> le b c \<Longrightarrow> le a c"
  unfolding le_def using lt_trans_num by blast

lemma le_total_num: "a \<noteq> NaN \<Longrightarrow> b \<noteq> NaN \<Longrightarrow> \<not> lt a b \<Longrightarrow> le b a"
  by (cases a; cases b) (auto simp: le_def)

lemma max2_props:
  assumes "a \<noteq> NaN" "b \<noteq> NaN"
  shows "max2 a b \<noteq> NaN" "le a (max2 a b)" "le b (max2 a b)" "max2 a b = a \<or> max2 a b = b"
  using assms le_total_num [of a b] by (auto simp: max2_def le_def)

lemma foldl_max2:
  "a \<noteq> NaN \<Longrightarrow> NaN \<notin> set xs \<Longrightarrow>
   (foldl max2 a xs = a \<or> foldl max2 a xs \<in> set xs) \<and> le a (foldl max2 a xs)
   \<and> (\<forall>c \<in> set xs. le c (foldl max2 a xs))"
proof (induction xs arbitrary: a)
  case Nil
  then show ?case
    by (simp add: le_refl_num)
next
  case (Cons x xs)
  then have x: "x \<noteq> NaN" and xs: "NaN \<notin> set xs"
    by auto
  note m = max2_props [OF Cons.prems(1) x]
  from Cons.IH [OF m(1) xs]
  have ih: "foldl max2 (max2 a x) xs = max2 a x \<or> foldl max2 (max2 a x) xs \<in> set xs"
    "le (max2 a x) (foldl max2 (max2 a x) xs)"
    "\<forall>c \<in> set xs. le c (foldl max2 (max2 a x) xs)"
    by simp_all
  have "le a (foldl max2 (max2 a x) xs)" "le x (foldl max2 (max2 a x) xs)"
    using le_trans_num [OF m(2) ih(2)] le_trans_num [OF m(3) ih(2)] by simp_all
  moreover have "foldl max2 (max2 a x) xs = a \<or> foldl max2 (max2 a x) xs \<in> set (x # xs)"
    using ih(1) m(4) by auto
  ultimately show ?case
    using ih(3) by simp
qed

lemma Math_max_maximum:
  assumes "xs \<noteq> []" "NaN \<notin> set xs"
  shows "Math_max xs \<in> set xs \<and> (\<forall>c \<in> set xs. le c (Math_max xs))"
proof -
  have f: "(Math_max xs = NegInfinity \<or> Math_max xs \<in> set xs)"
    "\<forall>c \<in> set xs. le c (Math_max xs)"
    using foldl_max2 [of NegInfinity xs] assms(2) by (simp_all add: Math_max_def)
  have "Math_max xs \<in> set xs"
  proof (cases "Math_max xs = NegInfinity")
    case True
    from assms(1) obtain c where c: "c \<in> set xs"
      by (cases xs) auto
    with f(2) True have "le c NegInfinity"
      by simp
    then have "c = NegInfinity"
      by (cases c) (simp_all add: le_def)
    with c True show ?thesis
      by simp
  next
    case False
    with f(1) show ?thesis
      by simp
  qed
  with f(2) show ?thesis
    by simp
qed

lemma toLowerCase_char_units:
  "toLowerCase_char CHR ''t'' = CHR ''t''" "toLowerCase_char CHR ''T'' = CHR ''t''"
  "toLowerCase_char CHR ''b'' = CHR ''b''" "toLowerCase_char CHR ''B'' = CHR ''b''"
  by code_simp+

lemma toLowerCase_char_t: "toLowerCase [u] = ''t'' \<longleftrightarrow> u = CHR ''t'' \<or> u = CHR ''T''"
proof -
  have "toLowerCase_char u = CHR ''t'' \<longleftrightarrow> u = CHR ''t'' \<or> u = CHR ''T''"
  proof
    assume a: "toLowerCase_char u = CHR ''t''"
    show "u = CHR ''t'' \<or> u = CHR ''T''"
    proof (cases "(65 \<le> (of_char u :: nat) \<and> (of_char u :: nat) \<le> 90)
                  \<or> (192 \<le> (of_char u :: nat) \<and> (of_char u :: nat) \<le> 222 \<and> (of_char u :: nat) \<noteq> 215)")
      case True
      with a have "char_of ((of_char u :: nat) + 32) = CHR ''t''"
        by (simp add: toLowerCase_char_def Let_def)
      then have "(of_char (char_of ((of_char u :: nat) + 32) :: char) :: nat) = of_char CHR ''t''"
        by simp
      then have "((of_char u :: nat) + 32) mod 256 = 116"
        by (simp add: of_char_of)
      with True have "(of_char u :: nat) = of_char CHR ''T''"
        by (auto simp: mod_if split: if_splits)
      then have "u = CHR ''T''"
        by (simp only: of_char_eq_iff)
      then show ?thesis
        by simp
    next
      case False
      with a show ?thesis
        by (simp add: toLowerCase_char_def Let_def)
    qed
  next
    assume "u = CHR ''t'' \<or> u = CHR ''T''"
    then show "toLowerCase_char u = CHR ''t''"
      using toLowerCase_char_units by auto
  qed
  then show ?thesis
    by (simp add: toLowerCase_def)
qed

lemma parameterCount_unit:
  "parameterCount (num, u) =
     (if u = CHR ''t'' \<or> u = CHR ''T'' then mul (parseFloat num) (Num 1000) else parseFloat num)"
  using toLowerCase_char_t [of u] by (simp add: parameterCount_def Let_def)

lemma process_name_cases:
  "process_name n acc = acc \<or>
   (\<exists>v. parametersInBillions n = Some v \<and> lt (Num 0) v \<and>
        process_name n acc = acc @ [\<lparr>name = n, parameters_in_billions = v,
                                      emissions_per_token_kWh = mul v energyConsumptionFactor\<rparr>])"
  by (simp add: process_name_def split: option.splits)

text \<open>
  C4, as stated, fails: in \<open>Llama 7 B\<close> no number has a unit letter as the very next code
  unit, yet the regular expression, which allows blanks (\<^verbatim>\<open>\s*\<close>) before the unit letter,
  matches \<open>7 B\<close>, and the entry enters the list with 7 billion parameters.
\<close>

theorem whitespace_before_unit_counterexample:
  "\<not> spec_has_token ''Llama 7 B''
   \<and> process_name ''Llama 7 B'' [] =
       [\<lparr>name = ''Llama 7 B'', parameters_in_billions = Num 7,
         emissions_per_token_kWh = mul (Num 7) energyConsumptionFactor\<rparr>]"
  by code_simp

text \<open>
  C4, amended. The matches of a name are those of the scan \<open>matchAll\<close>: from left to right
  and not overlapping, each a number that starts at a word edge, followed after any
  number of blanks by a unit letter \<open>b\<close>, \<open>B\<close>, \<open>t\<close> or \<open>T\<close> that ends at a word edge. When there
  is a match, the extracted \<open>parametersInBillions\<close> is one of the counts of the matches and
  no count is larger, the count of a match being its number, times 1000 when the unit is
  \<open>t\<close> or \<open>T\<close>; the loop adds at most one entry for the name, and that entry carries the
  extracted value. When there is no match, no value is extracted and the loop adds no
  entry for the name.
\<close>

theorem parametersInBillions_maximum:
  "(matchAll modelName \<noteq> [] \<longrightarrow>
      (\<exists>v. parametersInBillions modelName = Some v
           \<and> v \<in> set (map parameterCount (matchAll modelName))
           \<and> (\<forall>c \<in> set (map parameterCount (matchAll modelName)). le c v)))
   \<and> (\<forall>num u. parameterCount (num, u) =
         (if u = CHR ''t'' \<or> u = CHR ''T'' then mul (parseFloat num) (Num 1000) else parseFloat num))
   \<and> (process_name modelName modelsWithEmissions = modelsWithEmissions
        \<or> (\<exists>v. parametersInBillions modelName = Some v \<and>
               process_name modelName modelsWithEmissions =
                 modelsWithEmissions @
                   [\<lparr>name = modelName, parameters_in_billions = v,
                     emissions_per_token_kWh = mul v energyConsumptionFactor\<rparr>]))
   \<and> (matchAll modelName = [] \<longrightarrow>
        parametersInBillions modelName = None
        \<and> process_name modelName modelsWithEmissions = modelsWithEmissions)"
proof -
  have a: "\<exists>v. parametersInBillions modelName = Some v
           \<and> v \<in> set (map parameterCount (matchAll modelName))
           \<and> (\<forall>c \<in> set (map parameterCount (matchAll modelName)). le c v)"
    if ne: "matchAll modelName \<noteq> []"
  proof -
    have "map parameterCount (matchAll modelName) \<noteq> []"
      using ne by simp
    moreover have "NaN \<notin> set (map parameterCount (matchAll modelName))"
      using parameterCount_not_NaN [of _ modelName] by (metis imageE list.set_map)
    ultimately have "Math_max (map parameterCount (matchAll modelName))
          \<in> set (map parameterCount (matchAll modelName))
        \<and> (\<forall>c \<in> set (map parameterCount (matchAll modelName)).
              le c (Math_max (map parameterCount (matchAll modelName))))"
      by (rule Math_max_maximum)
    moreover have "parametersInBillions modelName
        = Some (Math_max (map parameterCount (matchAll modelName)))"
      using ne by (simp add: parametersInBillions_def Let_def)
    ultimately show ?thesis
      by blast
  qed
  have b: "parametersInBillions modelName = None
        \<and> process_name modelName modelsWithEmissions = modelsWithEmissions"
    if "matchAll modelName = []"
    using that by (simp add: parametersInBillions_def process_name_def)
  have c: "process_name modelName modelsWithEmissions = modelsWithEmissions
        \<or> (\<exists>v. parametersInBillions modelName = Some v \<and>
               process_name modelName modelsWithEmissions =
                 modelsWithEmissions @
                   [\<lparr>name = modelName, parameters_in_billions = v,
                     emissions_per_token_kWh = mul v energyConsumptionFactor\<rparr>])"
    using process_name_cases [of modelName modelsWithEmissions] by blast
  show ?thesis
    using a b c parameterCount_unit by blast
qed

lemma matchAll_examples:
  "matchAll ''Yi 6B 1T'' = [(''6'', CHR ''B''), (''1'', CHR ''T'')]"
  "matchAll ''GPT-4 Turbo'' = []"
  "matchAll ''Mixtral 8x7B'' = []"
  "matchAll ''Llama 7 B'' = [(''7'', CHR ''B'')]"
  "matchAll ''v1.5B'' = [(''5'', CHR ''B'')]"
  by code_simp+

lemma parametersInBillions_example: "parametersInBillions ''Yi 6B 1T'' = Some (Num 1000)"
  by code_simp

theorem parametersInBillions_maximum_witness:
  "matchAll ''Yi 6B 1T'' \<noteq> []
   \<and> parametersInBillions ''Yi 6B 1T'' = Some (Num 1000)
   \<and> Num 1000 \<in> set (map parameterCount (matchAll ''Yi 6B 1T''))
   \<and> le (parameterCount (''6'', CHR ''B'')) (Num 1000)
   \<and> le (parameterCount (''1'', CHR ''T'')) (Num 1000)
   \<and> matchAll ''GPT-4 Turbo'' = []
   \<and> parametersInBillions ''GPT-4 Turbo'' = None
   \<and> process_name ''GPT-4 Turbo'' [] = []"
  using parametersInBillions_maximum [of "''Yi 6B 1T''" "[]"]
    parametersInBillions_maximum [of "''GPT-4 Turbo''" "[]"]
    matchAll_examples(1,2) parametersInBillions_example
  by auto

section \<open>Properties of the catalog endpoint\<close>

lemma set_insert_model: "set (insert_model a bs) = insert a (set bs)"
  by (induction bs) auto

lemma set_sort_models: "set (sort_models ms) = set ms"
  unfolding sort_models_def by (induction ms) (simp_all add: set_insert_model)

lemma filter_insert_model:
  "length (filter P (insert_model a bs)) = length (filter P (a # bs))"
  by (induction bs) auto

lemma filter_sort_models: "length (filter P (sort_models ms)) = length (filter P ms)"
  unfolding sort_models_def by (induction ms) (simp_all add: filter_insert_model)

lemma all_valid_fallbackModels: "\<forall>m \<in> set fallbackModels. valid m"
  by (simp add: fallbackModels_def valid_def)

lemma filter_length_all: "length (filter P xs) = length xs \<Longrightarrow> \<forall>x \<in> set xs. P x"
  using length_filter_less [of _ xs P] by fastforce

lemma all_filter_length: "\<forall>x \<in> set xs. P x \<Longrightarrow> length (filter P xs) = length xs"
  by (induction xs) simp_all

lemma from_body_valid:
  "from_body c t data = Some (ms, c') \<Longrightarrow> \<forall>m \<in> set ms. valid m"
  using all_valid_fallbackModels
  by (auto simp: from_body_def Let_def set_sort_models split: option.splits if_splits)

lemma try_block_valid:
  "try_block c t r = Some (ms, c') \<Longrightarrow> \<forall>m \<in> set ms. valid m"
  using all_valid_fallbackModels from_body_valid [of c t _ ms c']
  by (auto simp: try_block_def split: fetch_result.splits option.splits if_splits payload.splits)

text \<open>
  C8. Every entry of the catalog that \<open>GET\<close> sends, whatever the cache, the clock and the
  upstream answer are (a fresh catalog, the cached one or the fallback table), has a
  finite, strictly positive \<open>parameters_in_billions\<close>.
\<close>

theorem GET_sends_valid_entries:
  "\<forall>m \<in> set (sent (GET c now now_store r)). valid m"
proof (cases "case cachedModels c of None \<Rightarrow> False
              | Some ms \<Rightarrow> now - lastFetched c < oneDay \<and> length (filter valid ms) = length ms")
  case True
  then obtain ms where ms: "cachedModels c = Some ms" "length (filter valid ms) = length ms"
    by (auto split: option.splits)
  from True ms(1) have "sent (GET c now now_store r) = ms"
    by (simp add: GET_def)
  with filter_length_all [OF ms(2)] show ?thesis
    by simp
next
  case False
  show ?thesis
  proof (cases "try_block c now_store r")
    case None
    with False have "sent (GET c now now_store r) = fallbackModels"
      by (simp add: GET_def)
    with all_valid_fallbackModels show ?thesis
      by simp
  next
    case (Some p)
    obtain ms c' where p: "p = (ms, c')"
      by (cases p)
    with False Some have "sent (GET c now now_store r) = ms"
      by (simp add: GET_def)
    with try_block_valid [of c now_store r ms c'] Some p show ?thesis
      by simp
  qed
qed

lemma GET_rejected: "GET \<lparr>cachedModels = None, lastFetched = 0\<rparr> 1000 1001 Rejected
   = \<lparr>sent = fallbackModels,
      state = \<lparr>cachedModels = Some fallbackModels, lastFetched = 1001\<rparr>, fetches = 1\<rparr>"
  by (simp add: GET_def try_block_def)

theorem GET_sends_valid_entries_witness:
  "\<lparr>name = ''Kimi K2'', parameters_in_billions = Num 1000,
     emissions_per_token_kWh = mul (Num 1000) (round_double (7594 / 10 ^ 12))\<rparr>
     \<in> set (sent (GET \<lparr>cachedModels = None, lastFetched = 0\<rparr> 1000 1001 Rejected))
   \<and> valid \<lparr>name = ''Kimi K2'', parameters_in_billions = Num 1000,
     emissions_per_token_kWh = mul (Num 1000) (round_double (7594 / 10 ^ 12))\<rparr>"
proof -
  have "\<lparr>name = ''Kimi K2'', parameters_in_billions = Num 1000,
     emissions_per_token_kWh = mul (Num 1000) (round_double (7594 / 10 ^ 12))\<rparr>
     \<in> set (sent (GET \<lparr>cachedModels = None, lastFetched = 0\<rparr> 1000 1001 Rejected))"
    unfolding GET_rejected by (simp add: fallbackModels_def del: mul.simps)
  then show ?thesis
    using GET_sends_valid_entries [of "\<lparr>cachedModels = None, lastFetched = 0\<rparr>" 1000 1001 Rejected]
    by blast
qed

lemma process_items_new:
  "process_items items acc = Some r \<Longrightarrow>
   \<exists>new. r = acc @ new \<and>
     (\<forall>m \<in> set new. parametersInBillions (name m) = Some (parameters_in_billions m)
         \<and> lt (Num 0) (parameters_in_billions m)
         \<and> emissions_per_token_kWh m = mul (parameters_in_billions m) energyConsumptionFactor)"
proof (induction items acc rule: process_items.induct)
  case (1 acc)
  then show ?case
    by simp
next
  case (2 rest acc)
  then show ?case
    by simp
next
  case (3 n rest acc)
  define nm where "nm = (case n of None \<Rightarrow> [] | Some s \<Rightarrow> s)"
  from "3.prems" have "process_items rest (process_name nm acc) = Some r"
    by (simp add: nm_def)
  from "3.IH" [OF this [unfolded nm_def]] obtain new where
    new: "r = process_name nm acc @ new"
      "\<forall>m \<in> set new. parametersInBillions (name m) = Some (parameters_in_billions m)
         \<and> lt (Num 0) (parameters_in_billions m)
         \<and> emissions_per_token_kWh m = mul (parameters_in_billions m) energyConsumptionFactor"
    unfolding nm_def by blast
  from process_name_cases [of nm acc] show ?case
  proof
    assume "process_name nm acc = acc"
    with new show ?thesis
      by auto
  next
    assume "\<exists>v. parametersInBillions nm = Some v \<and> lt (Num 0) v \<and>
        process_name nm acc = acc @ [\<lparr>name = nm, parameters_in_billions = v,
                                      emissions_per_token_kWh = mul v energyConsumptionFactor\<rparr>]"
    then obtain v where v: "parametersInBillions nm = Some v" "lt (Num 0) v"
      "process_name nm acc = acc @ [\<lparr>name = nm, parameters_in_billions = v,
                                      emissions_per_token_kWh = mul v energyConsumptionFactor\<rparr>]"
      by blast
    have "r = acc @ (\<lparr>name = nm, parameters_in_billions = v,
                      emissions_per_token_kWh = mul v energyConsumptionFactor\<rparr> # new)"
      using new(1) v(3) by simp
    moreover have "\<forall>m \<in> set (\<lparr>name = nm, parameters_in_billions = v,
                      emissions_per_token_kWh = mul v energyConsumptionFactor\<rparr> # new).
         parametersInBillions (name m) = Some (parameters_in_billions m)
         \<and> lt (Num 0) (parameters_in_billions m)
         \<and> emissions_per_token_kWh m = mul (parameters_in_billions m) energyConsumptionFactor"
      using new(2) v(1,2) by simp
    ultimately show ?thesis
      by blast
  qed
qed

lemma add_essentials_set:
  "set (add_essentials es acc) \<subseteq> set acc \<union> set es"
  by (induction es acc rule: add_essentials.induct) auto

lemma essentialModels_emissions:
  "\<forall>m \<in> set essentialModels.
     emissions_per_token_kWh m = mul (parameters_in_billions m) energyConsumptionFactor"
  by (simp add: essentialModels_def del: mul.simps)

text \<open>
  C10. The factor is the binary64 value of the literal 7.594e-9. When the loop over the
  upstream entries completes, every entry built during the refresh, extracted from a name
  or taken from the essential models, and so every entry of the catalog kept, has
  \<open>emissions_per_token_kWh = parameters_in_billions * 7.594e-9\<close>, the product being that of
  binary64.
\<close>

theorem refresh_entries_emissions:
  assumes "process_items items [] = Some modelsWithEmissions"
  shows "energyConsumptionFactor = round_double (7594 / 10 ^ 12)
       \<and> (\<forall>m \<in> set (add_essentials essentialModels modelsWithEmissions).
            emissions_per_token_kWh m = mul (parameters_in_billions m) (round_double (7594 / 10 ^ 12)))
       \<and> (\<forall>m \<in> set (sort_models (filter valid (add_essentials essentialModels modelsWithEmissions))).
            emissions_per_token_kWh m = mul (parameters_in_billions m) (round_double (7594 / 10 ^ 12)))"
proof -
  have K: "energyConsumptionFactor = round_double (7594 / 10 ^ 12)"
    by (fact energyConsumptionFactor_def)
  from process_items_new [OF assms]
  have "\<forall>m \<in> set modelsWithEmissions.
          emissions_per_token_kWh m = mul (parameters_in_billions m) energyConsumptionFactor"
    by auto
  with essentialModels_emissions add_essentials_set [of essentialModels modelsWithEmissions]
  have all: "\<forall>m \<in> set (add_essentials essentialModels modelsWithEmissions).
          emissions_per_token_kWh m = mul (parameters_in_billions m) energyConsumptionFactor"
    by blast
  then have "\<forall>m \<in> set (sort_models (filter valid (add_essentials essentialModels modelsWithEmissions))).
          emissions_per_token_kWh m = mul (parameters_in_billions m) energyConsumptionFactor"
    by (simp add: set_sort_models)
  with all K show ?thesis
    by (simp only: simp_thms)
qed

lemma process_items_example:
  "process_items [Item (Some ''Llama 2 70B''), Item None, Item (Some ''Qwen 1T (free)'')] []
     = Some [\<lparr>name = ''Llama 2 70B'', parameters_in_billions = Num 70,
               emissions_per_token_kWh = mul (Num 70) energyConsumptionFactor\<rparr>]"
  by code_simp

lemma add_essentials_keeps: "set acc \<subseteq> set (add_essentials es acc)"
  by (induction es acc rule: add_essentials.induct) auto

lemma process_items_example_value:
  "process_items [Item (Some ''Llama 2 70B''), Item None, Item (Some ''Qwen 1T (free)'')] []
     = Some [\<lparr>name = ''Llama 2 70B'', parameters_in_billions = Num 70,
               emissions_per_token_kWh = Num (1255157787481923 / 2361183241434822606848)\<rparr>]"
  by code_simp

theorem refresh_entries_emissions_witness:
  "process_items [Item (Some ''Llama 2 70B''), Item None, Item (Some ''Qwen 1T (free)'')] []
     = Some [\<lparr>name = ''Llama 2 70B'', parameters_in_billions = Num 70,
               emissions_per_token_kWh = Num (1255157787481923 / 2361183241434822606848)\<rparr>]
   \<and> Num (1255157787481923 / 2361183241434822606848) = mul (Num 70) (round_double (7594 / 10 ^ 12))"
proof -
  have "\<lparr>name = ''Llama 2 70B'', parameters_in_billions = Num 70,
          emissions_per_token_kWh = Num (1255157787481923 / 2361183241434822606848)\<rparr>
      \<in> set (add_essentials essentialModels
            [\<lparr>name = ''Llama 2 70B'', parameters_in_billions = Num 70,
               emissions_per_token_kWh = Num (1255157787481923 / 2361183241434822606848)\<rparr>])"
    using add_essentials_keeps
      [of "[\<lparr>name = ''Llama 2 70B'', parameters_in_billions = Num 70,
              emissions_per_token_kWh = Num (1255157787481923 / 2361183241434822606848)\<rparr>]"
          essentialModels]
    by simp
  with refresh_entries_emissions [OF process_items_example_value]
  have "emissions_per_token_kWh
          \<lparr>name = ''Llama 2 70B'', parameters_in_billions = Num 70,
            emissions_per_token_kWh = Num (1255157787481923 / 2361183241434822606848)\<rparr>
      = mul (parameters_in_billions
          \<lparr>name = ''Llama 2 70B'', parameters_in_billions = Num 70,
            emissions_per_token_kWh = Num (1255157787481923 / 2361183241434822606848)\<rparr>)
          (round_double (7594 / 10 ^ 12))"
    by blast
  then have "Num (1255157787481923 / 2361183241434822606848) = mul (Num 70) (round_double (7594 / 10 ^ 12))"
    by (simp only: ModelData.simps)
  with process_items_example_value show ?thesis
    by (rule conjI)
qed

lemma unit_letter_lower:
  assumes "u \<in> set s" "is_unit_letter u"
  shows "CHR ''b'' \<in> set (toLowerCase s) \<or> CHR ''t'' \<in> set (toLowerCase s)"
proof -
  from assms(2) have "toLowerCase_char u = CHR ''b'' \<or> toLowerCase_char u = CHR ''t''"
    using toLowerCase_char_units by (auto simp: is_unit_letter_def)
  moreover have "toLowerCase_char u \<in> set (toLowerCase s)"
    using assms(1) by (simp add: toLowerCase_def)
  ultimately show ?thesis
    by metis
qed

lemma essential_names_lower:
  "toLowerCase ''DeepSeek V3 0324'' = ''deepseek v3 0324''"
  "toLowerCase ''Kimi K2'' = ''kimi k2''"
  by code_simp+

lemma extracted_name_not_essential:
  assumes "parametersInBillions nm = Some v"
  shows "toLowerCase nm \<noteq> toLowerCase ''DeepSeek V3 0324'' \<and> toLowerCase nm \<noteq> toLowerCase ''Kimi K2''"
proof -
  from assms have "matchAll nm \<noteq> []"
    by (auto simp: parametersInBillions_def Let_def split: if_splits)
  then obtain num u where "(num, u) \<in> set (matchAll nm)"
    by (cases "matchAll nm") auto
  from matchAll_D [OF this] have "u \<in> set nm" "is_unit_letter u"
    by simp_all
  from unit_letter_lower [OF this]
  have "CHR ''b'' \<in> set (toLowerCase nm) \<or> CHR ''t'' \<in> set (toLowerCase nm)" .
  moreover have "CHR ''b'' \<notin> set ''deepseek v3 0324'' \<and> CHR ''t'' \<notin> set ''deepseek v3 0324''"
    "CHR ''b'' \<notin> set ''kimi k2'' \<and> CHR ''t'' \<notin> set ''kimi k2''"
    by simp_all
  ultimately show ?thesis
    unfolding essential_names_lower by metis
qed

lemma add_essentials_fresh:
  assumes "\<forall>m \<in> set acc. toLowerCase (name m) \<noteq> toLowerCase ''DeepSeek V3 0324''
             \<and> toLowerCase (name m) \<noteq> toLowerCase ''Kimi K2''"
  shows "add_essentials essentialModels acc = acc @ essentialModels"
  using assms unfolding essential_names_lower
  by (auto simp: essentialModels_def list_ex_iff essential_names_lower)

lemma process_items_catalog:
  assumes "process_items items [] = Some modelsWithEmissions"
  shows "add_essentials essentialModels modelsWithEmissions = modelsWithEmissions @ essentialModels"
    and "\<forall>m \<in> set modelsWithEmissions. toLowerCase (name m) \<noteq> toLowerCase ''DeepSeek V3 0324''
             \<and> toLowerCase (name m) \<noteq> toLowerCase ''Kimi K2''"
proof -
  from process_items_new [OF assms]
  have "\<forall>m \<in> set modelsWithEmissions. parametersInBillions (name m) = Some (parameters_in_billions m)"
    by auto
  then show n: "\<forall>m \<in> set modelsWithEmissions. toLowerCase (name m) \<noteq> toLowerCase ''DeepSeek V3 0324''
             \<and> toLowerCase (name m) \<noteq> toLowerCase ''Kimi K2''"
    using extracted_name_not_essential by blast
  show "add_essentials essentialModels modelsWithEmissions = modelsWithEmissions @ essentialModels"
    by (rule add_essentials_fresh [OF n])
qed

lemma filter_valid_essentialModels: "filter valid essentialModels = essentialModels"
  by (simp add: essentialModels_def valid_def)

lemma from_body_success:
  assumes "process_items items [] = Some modelsWithEmissions"
  shows "from_body c t (Some items) =
    Some (sort_models (filter valid modelsWithEmissions @ essentialModels),
          \<lparr>cachedModels = Some (sort_models (filter valid modelsWithEmissions @ essentialModels)),
           lastFetched = t\<rparr>)"
proof -
  have "filter valid (add_essentials essentialModels modelsWithEmissions)
      = filter valid modelsWithEmissions @ essentialModels"
    by (simp add: process_items_catalog(1) [OF assms] filter_valid_essentialModels)
  moreover have "essentialModels \<noteq> []"
    by (simp add: essentialModels_def)
  ultimately show ?thesis
    using assms by (simp add: from_body_def Let_def)
qed

lemma count_one_of_two:
  assumes "\<forall>m \<in> set ms. f m \<noteq> a \<and> f m \<noteq> b" "a \<noteq> b" "x = a \<or> x = b" "f e1 = a" "f e2 = b"
  shows "length (filter (\<lambda>m. f m = x) (ms @ [e1, e2])) = 1"
proof -
  have "filter (\<lambda>m. f m = x) ms = []"
    using assms(1,3) by (auto simp: filter_empty_conv)
  moreover have "length (filter (\<lambda>m. f m = x) [e1, e2]) = 1"
    using assms(2-5) by auto
  ultimately show ?thesis
    by simp
qed

lemma essential_names_differ: "toLowerCase ''DeepSeek V3 0324'' \<noteq> toLowerCase ''Kimi K2''"
  unfolding essential_names_lower by simp

lemma essential_names:
  "e \<in> set essentialModels \<Longrightarrow> name e = ''DeepSeek V3 0324'' \<or> name e = ''Kimi K2''"
  by (auto simp: essentialModels_def simp del: mul.simps)

lemma essential_count:
  assumes "\<forall>m \<in> set ms. toLowerCase (name m) \<noteq> toLowerCase ''DeepSeek V3 0324''
             \<and> toLowerCase (name m) \<noteq> toLowerCase ''Kimi K2''"
    and "e \<in> set essentialModels"
  shows "length (filter (\<lambda>m. toLowerCase (name m) = toLowerCase (name e)) (ms @ essentialModels)) = 1"
proof -
  define f :: "ModelData \<Rightarrow> string" where "f = (\<lambda>m. toLowerCase (name m))"
  define a where "a = toLowerCase ''DeepSeek V3 0324''"
  define b where "b = toLowerCase ''Kimi K2''"
  define e1 where "e1 = \<lparr>name = ''DeepSeek V3 0324'', parameters_in_billions = Num 675,
       emissions_per_token_kWh = mul (Num 675) energyConsumptionFactor\<rparr>"
  define e2 where "e2 = \<lparr>name = ''Kimi K2'', parameters_in_billions = Num 1000,
       emissions_per_token_kWh = mul (Num 1000) energyConsumptionFactor\<rparr>"
  have h1: "\<forall>m \<in> set ms. f m \<noteq> a \<and> f m \<noteq> b"
    using assms(1) by (simp add: f_def a_def b_def)
  have h2: "a \<noteq> b"
    unfolding a_def b_def by (rule essential_names_differ)
  have h3: "f e = a \<or> f e = b"
    using essential_names [OF assms(2)] unfolding f_def a_def b_def by metis
  have h4: "f e1 = a" "f e2 = b"
    by (simp_all only: f_def a_def b_def e1_def e2_def ModelData.simps)
  have "length (filter (\<lambda>m. f m = f e) (ms @ [e1, e2])) = 1"
    using h1 h2 h3 h4 by (rule count_one_of_two)
  moreover have "essentialModels = [e1, e2]"
    unfolding essentialModels_def e1_def e2_def ..
  ultimately show ?thesis
    by (simp only: f_def)
qed

text \<open>
  C7, as stated, fails: for the upstream names \<open>Llama 7B\<close> and \<open>llama 7b\<close>, equal when case
  is ignored, the catalog sent holds both.
\<close>

theorem duplicate_names_counterexample:
  "map name (sent (GET \<lparr>cachedModels = None, lastFetched = 0\<rparr> 1000 1001
      (Response True (Some ''application/json'')
         (Json (Some [Item (Some ''Llama 7B''), Item (Some ''llama 7b'')])))))
     = [''Kimi K2'', ''DeepSeek V3 0324'', ''Llama 7B'', ''llama 7b'']
   \<and> toLowerCase ''Llama 7B'' = toLowerCase ''llama 7b''"
  by code_simp

text \<open>
  C7, amended. The refresh does not remove duplicates among the upstream names. In every
  catalog that a refresh produces from a parsed body, each essential model
  (\<open>DeepSeek V3 0324\<close>, \<open>Kimi K2\<close>) is the name, case ignored, of exactly one entry, whether
  or not the upstream list held that name.
\<close>

theorem essential_models_exactly_once:
  assumes "from_body c now_store (Some items) = Some (catalog, c')"
    and "e \<in> set essentialModels"
  shows "length (filter (\<lambda>m. toLowerCase (name m) = toLowerCase (name e)) catalog) = 1"
proof -
  from assms(1) obtain mwe where mwe: "process_items items [] = Some mwe"
    by (auto simp: from_body_def split: option.splits)
  from assms(1) from_body_success [OF mwe, of c now_store]
  have cat: "catalog = sort_models (filter valid mwe @ essentialModels)"
    by simp
  have "\<forall>m \<in> set (filter valid mwe). toLowerCase (name m) \<noteq> toLowerCase ''DeepSeek V3 0324''
             \<and> toLowerCase (name m) \<noteq> toLowerCase ''Kimi K2''"
    using process_items_catalog(2) [OF mwe] by simp
  from essential_count [OF this assms(2)] show ?thesis
    unfolding cat by (simp only: filter_sort_models)
qed

lemma from_body_example:
  "from_body \<lparr>cachedModels = None, lastFetched = 0\<rparr> 1001
     (Some [Item (Some ''Kimi K2''), Item (Some ''Llama 2 70B'')])
   = Some ([\<lparr>name = ''Kimi K2'', parameters_in_billions = Num 1000,
              emissions_per_token_kWh = mul (Num 1000) energyConsumptionFactor\<rparr>,
            \<lparr>name = ''DeepSeek V3 0324'', parameters_in_billions = Num 675,
              emissions_per_token_kWh = mul (Num 675) energyConsumptionFactor\<rparr>,
            \<lparr>name = ''Llama 2 70B'', parameters_in_billions = Num 70,
              emissions_per_token_kWh = mul (Num 70) energyConsumptionFactor\<rparr>],
           \<lparr>cachedModels = Some
             [\<lparr>name = ''Kimi K2'', parameters_in_billions = Num 1000,
               emissions_per_token_kWh = mul (Num 1000) energyConsumptionFactor\<rparr>,
              \<lparr>name = ''DeepSeek V3 0324'', parameters_in_billions = Num 675,
               emissions_per_token_kWh = mul (Num 675) energyConsumptionFactor\<rparr>,
              \<lparr>name = ''Llama 2 70B'', parameters_in_billions = Num 70,
               emissions_per_token_kWh = mul (Num 70) energyConsumptionFactor\<rparr>],
            lastFetched = 1001\<rparr>)"
  by code_simp

lemma Kimi_essential:
  "\<lparr>name = ''Kimi K2'', parameters_in_billions = Num 1000,
     emissions_per_token_kWh = mul (Num 1000) energyConsumptionFactor\<rparr> \<in> set essentialModels"
  by (simp add: essentialModels_def del: mul.simps)

theorem essential_models_exactly_once_witness:
  "from_body \<lparr>cachedModels = None, lastFetched = 0\<rparr> 1001
     (Some [Item (Some ''Kimi K2''), Item (Some ''Llama 2 70B'')])
   = Some ([\<lparr>name = ''Kimi K2'', parameters_in_billions = Num 1000,
              emissions_per_token_kWh = mul (Num 1000) energyConsumptionFactor\<rparr>,
            \<lparr>name = ''DeepSeek V3 0324'', parameters_in_billions = Num 675,
              emissions_per_token_kWh = mul (Num 675) energyConsumptionFactor\<rparr>,
            \<lparr>name = ''Llama 2 70B'', parameters_in_billions = Num 70,
              emissions_per_token_kWh = mul (Num 70) energyConsumptionFactor\<rparr>],
           \<lparr>cachedModels = Some
             [\<lparr>name = ''Kimi K2'', parameters_in_billions = Num 1000,
               emissions_per_token_kWh = mul (Num 1000) energyConsumptionFactor\<rparr>,
              \<lparr>name = ''DeepSeek V3 0324'', parameters_in_billions = Num 675,
               emissions_per_token_kWh = mul (Num 675) energyConsumptionFactor\<rparr>,
              \<lparr>name = ''Llama 2 70B'', parameters_in_billions = Num 70,
               emissions_per_token_kWh = mul (Num 70) energyConsumptionFactor\<rparr>],
            lastFetched = 1001\<rparr>)
   \<and> \<lparr>name = ''Kimi K2'', parameters_in_billions = Num 1000,
       emissions_per_token_kWh = mul (Num 1000) energyConsumptionFactor\<rparr> \<in> set essentialModels
   \<and> length (filter (\<lambda>m. toLowerCase (name m) = toLowerCase ''Kimi K2'')
        [\<lparr>name = ''Kimi K2'', parameters_in_billions = Num 1000,
              emissions_per_token_kWh = mul (Num 1000) energyConsumptionFactor\<rparr>,
            \<lparr>name = ''DeepSeek V3 0324'', parameters_in_billions = Num 675,
              emissions_per_token_kWh = mul (Num 675) energyConsumptionFactor\<rparr>,
            \<lparr>name = ''Llama 2 70B'', parameters_in_billions = Num 70,
              emissions_per_token_kWh = mul (Num 70) energyConsumptionFactor\<rparr>]) = 1"
  using essential_models_exactly_once [OF from_body_example Kimi_essential] from_body_example
    Kimi_essential
  by (simp only: ModelData.simps simp_thms)

text \<open>
  C5 at concrete inputs. With an empty cache, an answer with a non-success status, one
  with a content type that is not JSON, and one whose body has no \<open>data\<close> array each make
  \<open>GET\<close> send the fallback table and leave the cache empty and \<open>lastFetched\<close> at 0, so the
  next call fetches again; a rejected \<open>fetch\<close> stores the fallback table and the time.
\<close>

theorem GET_early_return_keeps_cache:
  "GET \<lparr>cachedModels = None, lastFetched = 0\<rparr> 1000 1001 (Response False None NotJson)
     = \<lparr>sent = fallbackModels, state = \<lparr>cachedModels = None, lastFetched = 0\<rparr>, fetches = 1\<rparr>
   \<and> GET \<lparr>cachedModels = None, lastFetched = 0\<rparr> 1000 1001 (Response True (Some ''text/html'') NotJson)
     = \<lparr>sent = fallbackModels, state = \<lparr>cachedModels = None, lastFetched = 0\<rparr>, fetches = 1\<rparr>
   \<and> GET \<lparr>cachedModels = None, lastFetched = 0\<rparr> 1000 1001
         (Response True (Some ''application/json'') (Json None))
     = \<lparr>sent = fallbackModels, state = \<lparr>cachedModels = None, lastFetched = 0\<rparr>, fetches = 1\<rparr>
   \<and> fetches (GET \<lparr>cachedModels = None, lastFetched = 0\<rparr> 1002 1003 (Response False None NotJson)) = 1
   \<and> GET \<lparr>cachedModels = None, lastFetched = 0\<rparr> 1000 1001 Rejected
     = \<lparr>sent = fallbackModels,
        state = \<lparr>cachedModels = Some fallbackModels, lastFetched = 1001\<rparr>, fetches = 1\<rparr>"
  by (simp add: GET_def try_block_def from_body_def)

lemma GET_hit:
  assumes "cachedModels c = Some ms" "now - lastFetched c < oneDay" "\<forall>m \<in> set ms. valid m"
  shows "GET c now now_store r = \<lparr>sent = ms, state = c, fetches = 0\<rparr>"
  using assms all_filter_length [of ms valid] by (simp add: GET_def)

lemma GET_miss:
  assumes "\<not> (case cachedModels c of None \<Rightarrow> False
             | Some ms \<Rightarrow> now - lastFetched c < oneDay \<and> length (filter valid ms) = length ms)"
  shows "fetches (GET c now now_store r) = 1"
proof (cases "try_block c now_store r")
  case None
  with assms show ?thesis
    by (simp add: GET_def)
next
  case (Some p)
  with assms show ?thesis
    by (cases p) (simp add: GET_def)
qed

lemma GET_fetches: "fetches (GET c now now_store r) = 0 \<or> fetches (GET c now now_store r) = 1"
proof (cases "case cachedModels c of None \<Rightarrow> False
             | Some ms \<Rightarrow> now - lastFetched c < oneDay \<and> length (filter valid ms) = length ms")
  case True
  then show ?thesis
    by (simp add: GET_def)
next
  case False
  then show ?thesis
    using GET_miss by blast
qed

text \<open>
  C6. When a cached catalog exists, \<open>now - lastFetched\<close> is below 24 hours and every cached
  entry is valid, \<open>GET\<close> sends the cached catalog, leaves the state as it is and does not
  fetch. When a cached entry is not valid, and when there is no cached catalog or the 24
  hours have passed, \<open>GET\<close> fetches exactly once. When that fetch succeeds (status ok, JSON
  content type, a body with a \<open>data\<close> array, the loop completing), the catalog sent is the
  refreshed one, and the cache holds it with the time of the store.
\<close>

theorem GET_cache_contract:
  "(cachedModels c = Some ms \<and> now - lastFetched c < oneDay \<and> (\<forall>m \<in> set ms. valid m)
      \<longrightarrow> GET c now now_store r = \<lparr>sent = ms, state = c, fetches = 0\<rparr>)
   \<and> (cachedModels c = Some ms \<and> (\<exists>m \<in> set ms. \<not> valid m)
      \<longrightarrow> fetches (GET c now now_store r) = 1)
   \<and> (cachedModels c = None \<or> oneDay \<le> now - lastFetched c
      \<longrightarrow> fetches (GET c now now_store r) = 1)
   \<and> (fetches (GET c now now_store (Response True (Some contentType) (Json (Some items)))) = 1
       \<and> includes_str contentType ''application/json''
       \<and> process_items items [] = Some modelsWithEmissions
      \<longrightarrow> GET c now now_store (Response True (Some contentType) (Json (Some items)))
          = \<lparr>sent = sort_models (filter valid (add_essentials essentialModels modelsWithEmissions)),
             state = \<lparr>cachedModels =
                        Some (sort_models (filter valid (add_essentials essentialModels modelsWithEmissions))),
                      lastFetched = now_store\<rparr>,
             fetches = 1\<rparr>)"
proof -
  have p1: "GET c now now_store r = \<lparr>sent = ms, state = c, fetches = 0\<rparr>"
    if "cachedModels c = Some ms" "now - lastFetched c < oneDay" "\<forall>m \<in> set ms. valid m"
    using that by (rule GET_hit)
  have p2: "fetches (GET c now now_store r) = 1"
    if "cachedModels c = Some ms" "\<exists>m \<in> set ms. \<not> valid m"
  proof -
    from that(2) have "length (filter valid ms) \<noteq> length ms"
      using filter_length_all [of valid ms] by blast
    with that(1) show ?thesis
      by (intro GET_miss) simp
  qed
  have p3: "fetches (GET c now now_store r) = 1"
    if "cachedModels c = None \<or> oneDay \<le> now - lastFetched c"
    using that by (intro GET_miss) (auto split: option.splits)
  have p4: "GET c now now_store (Response True (Some contentType) (Json (Some items)))
          = \<lparr>sent = sort_models (filter valid (add_essentials essentialModels modelsWithEmissions)),
             state = \<lparr>cachedModels =
                        Some (sort_models (filter valid (add_essentials essentialModels modelsWithEmissions))),
                      lastFetched = now_store\<rparr>,
             fetches = 1\<rparr>"
    if f: "fetches (GET c now now_store (Response True (Some contentType) (Json (Some items)))) = 1"
      and ct: "includes_str contentType ''application/json''"
      and pi: "process_items items [] = Some modelsWithEmissions"
  proof -
    have miss: "\<not> (case cachedModels c of None \<Rightarrow> False
             | Some ms \<Rightarrow> now - lastFetched c < oneDay \<and> length (filter valid ms) = length ms)"
      using f by (auto simp: GET_def split: if_splits)
    have "filter valid (add_essentials essentialModels modelsWithEmissions)
        = filter valid modelsWithEmissions @ essentialModels"
      by (simp add: process_items_catalog(1) [OF pi] filter_valid_essentialModels)
    with from_body_success [OF pi, of c now_store]
    have "try_block c now_store (Response True (Some contentType) (Json (Some items)))
        = Some (sort_models (filter valid (add_essentials essentialModels modelsWithEmissions)),
            \<lparr>cachedModels =
                Some (sort_models (filter valid (add_essentials essentialModels modelsWithEmissions))),
             lastFetched = now_store\<rparr>)"
      using ct by (simp add: try_block_def)
    with miss show ?thesis
      by (simp add: GET_def)
  qed
  show ?thesis
    using p1 p2 p3 p4 by blast
qed

lemma includes_json: "includes_str ''application/json; charset=utf-8'' ''application/json''"
  by simp

lemma within_one_day: "(2000 :: int) - 1000 < oneDay"
  by (simp add: oneDay_def)

theorem GET_cache_contract_witness:
  "cachedModels \<lparr>cachedModels = Some fallbackModels, lastFetched = 1000\<rparr> = Some fallbackModels
   \<and> 2000 - lastFetched \<lparr>cachedModels = Some fallbackModels, lastFetched = 1000\<rparr> < oneDay
   \<and> list_all valid fallbackModels
   \<and> GET \<lparr>cachedModels = Some fallbackModels, lastFetched = 1000\<rparr> 2000 2001 Rejected
       = \<lparr>sent = fallbackModels, state = \<lparr>cachedModels = Some fallbackModels, lastFetched = 1000\<rparr>,
          fetches = 0\<rparr>
   \<and> (\<exists>m \<in> set [\<lparr>name = ''Zero'', parameters_in_billions = Num 0, emissions_per_token_kWh = Num 0\<rparr>].
         \<not> valid m)
   \<and> fetches (GET \<lparr>cachedModels = Some [\<lparr>name = ''Zero'', parameters_in_billions = Num 0,
                                           emissions_per_token_kWh = Num 0\<rparr>],
                     lastFetched = 1000\<rparr> 2000 2001 Rejected) = 1
   \<and> fetches (GET \<lparr>cachedModels = None, lastFetched = 0\<rparr> 2000 2001 Rejected) = 1
   \<and> includes_str ''application/json; charset=utf-8'' ''application/json''
   \<and> process_items [Item (Some ''Llama 2 70B''), Item None, Item (Some ''Qwen 1T (free)'')] []
       = Some [\<lparr>name = ''Llama 2 70B'', parameters_in_billions = Num 70,
                emissions_per_token_kWh = mul (Num 70) energyConsumptionFactor\<rparr>]
   \<and> GET \<lparr>cachedModels = None, lastFetched = 0\<rparr> 2000 2001
         (Response True (Some ''application/json; charset=utf-8'')
            (Json (Some [Item (Some ''Llama 2 70B''), Item None, Item (Some ''Qwen 1T (free)'')])))
       = \<lparr>sent = sort_models (filter valid (add_essentials essentialModels
                   [\<lparr>name = ''Llama 2 70B'', parameters_in_billions = Num 70,
                     emissions_per_token_kWh = mul (Num 70) energyConsumptionFactor\<rparr>])),
          state = \<lparr>cachedModels = Some (sort_models (filter valid (add_essentials essentialModels
                   [\<lparr>name = ''Llama 2 70B'', parameters_in_billions = Num 70,
                     emissions_per_token_kWh = mul (Num 70) energyConsumptionFactor\<rparr>]))),
                   lastFetched = 2001\<rparr>,
          fetches = 1\<rparr>"
proof -
  have z: "\<not> valid \<lparr>name = ''Zero'', parameters_in_billions = Num 0, emissions_per_token_kWh = Num 0\<rparr>"
    by (simp add: valid_def)
  note a = GET_cache_contract [where c = "\<lparr>cachedModels = Some fallbackModels, lastFetched = 1000\<rparr>"
      and ms = fallbackModels and now = 2000 and now_store = 2001 and r = Rejected]
  note b = GET_cache_contract [where c = "\<lparr>cachedModels = Some [\<lparr>name = ''Zero'',
        parameters_in_billions = Num 0, emissions_per_token_kWh = Num 0\<rparr>], lastFetched = 1000\<rparr>"
      and ms = "[\<lparr>name = ''Zero'', parameters_in_billions = Num 0, emissions_per_token_kWh = Num 0\<rparr>]"
      and now = 2000 and now_store = 2001 and r = Rejected]
  note d = GET_cache_contract [where c = "\<lparr>cachedModels = None, lastFetched = 0\<rparr>"
      and now = 2000 and now_store = 2001 and r = Rejected
      and contentType = "''application/json; charset=utf-8''"
      and items = "[Item (Some ''Llama 2 70B''), Item None, Item (Some ''Qwen 1T (free)'')]"
      and modelsWithEmissions = "[\<lparr>name = ''Llama 2 70B'', parameters_in_billions = Num 70,
                emissions_per_token_kWh = mul (Num 70) energyConsumptionFactor\<rparr>]"]
  have f: "fetches (GET \<lparr>cachedModels = None, lastFetched = 0\<rparr> 2000 2001
         (Response True (Some ''application/json; charset=utf-8'')
            (Json (Some [Item (Some ''Llama 2 70B''), Item None, Item (Some ''Qwen 1T (free)'')])))) = 1"
    by (rule GET_miss) simp
  have c1: "GET \<lparr>cachedModels = Some fallbackModels, lastFetched = 1000\<rparr> 2000 2001 Rejected
       = \<lparr>sent = fallbackModels, state = \<lparr>cachedModels = Some fallbackModels, lastFetched = 1000\<rparr>,
          fetches = 0\<rparr>"
    using a all_valid_fallbackModels within_one_day by simp
  have c2: "fetches (GET \<lparr>cachedModels = Some [\<lparr>name = ''Zero'', parameters_in_billions = Num 0,
                                           emissions_per_token_kWh = Num 0\<rparr>],
                     lastFetched = 1000\<rparr> 2000 2001 Rejected) = 1"
    using b z by simp
  have c3: "fetches (GET \<lparr>cachedModels = None, lastFetched = 0\<rparr> 2000 2001 Rejected) = 1"
    using d by simp
  have c4: "GET \<lparr>cachedModels = None, lastFetched = 0\<rparr> 2000 2001
         (Response True (Some ''application/json; charset=utf-8'')
            (Json (Some [Item (Some ''Llama 2 70B''), Item None, Item (Some ''Qwen 1T (free)'')])))
       = \<lparr>sent = sort_models (filter valid (add_essentials essentialModels
                   [\<lparr>name = ''Llama 2 70B'', parameters_in_billions = Num 70,
                     emissions_per_token_kWh = mul (Num 70) energyConsumptionFactor\<rparr>])),
          state = \<lparr>cachedModels = Some (sort_models (filter valid (add_essentials essentialModels
                   [\<lparr>name = ''Llama 2 70B'', parameters_in_billions = Num 70,
                     emissions_per_token_kWh = mul (Num 70) energyConsumptionFactor\<rparr>]))),
                   lastFetched = 2001\<rparr>,
          fetches = 1\<rparr>"
    using d f includes_json process_items_example by blast
  show ?thesis
    using c1 c2 c3 c4 z all_valid_fallbackModels within_one_day includes_json process_items_example
    by (simp add: list_all_iff)
qed

end
